theory Spec2Isabelle
  imports Main "HOL-Library.Sublist"
begin

section \<open>Values, errors and the object store\<close>

text \<open>
  The Python values that travel through the functions studied here: \<open>None\<close>, strings,
  lists and dictionaries (a dictionary is kept as the list of its items, in insertion
  order).
\<close>

datatype pyval = PNone | PStr string | PList "pyval list" | PDict "(string \<times> pyval) list"

text \<open>
  The exception classes: the four of \<open>lucidicai.errors\<close> that \<open>__init__.py\<close> imports and
  the two built-in ones that the LangChain handler can run into.
\<close>

datatype error =
    APIKeyVerificationError string
  | InvalidOperationError string
  | LucidicNotInitializedError
  | PromptError string
  | UnboundLocalError string
  | AttributeError string

text \<open>\<open>str(e)\<close> of an exception: its message.\<close>

fun error_str :: "error \<Rightarrow> string" where
  "error_str (APIKeyVerificationError m) = m"
| "error_str (InvalidOperationError m) = m"
| "error_str LucidicNotInitializedError = []"
| "error_str (PromptError m) = m"
| "error_str (UnboundLocalError m) = m"
| "error_str (AttributeError m) = m"

text \<open>
  Modelled from the spec: the attributes of an Event (\<open>event.py\<close> is not among the
  sources). The spec lists description (text and/or image payload), result, cost delta,
  model identifier, finished flag and success flag. The cost is a number whose arithmetic
  plays no role here, so its type is left open (\<open>'c\<close>). The success flag is unset
  (\<open>None\<close>) until a call passes one.
\<close>

record 'c event =
  ev_description :: "pyval option"
  ev_result :: "string option"
  ev_cost_added :: "'c option"
  ev_model :: "string option"
  ev_screenshots :: "pyval list option"
  ev_is_finished :: bool
  ev_is_successful :: "bool option"

text \<open>
  The keyword arguments of \<open>create_event\<close> and \<open>update_event\<close>; \<open>None\<close> stands for a
  keyword that is not passed, or passed as \<open>None\<close>.
\<close>

record 'c event_kwargs =
  kw_description :: "pyval option"
  kw_result :: "string option"
  kw_cost_added :: "'c option"
  kw_model :: "string option"
  kw_screenshots :: "pyval list option"
  kw_is_finished :: "bool option"
  kw_is_successful :: "bool option"

definition no_kwargs :: "'c event_kwargs" where
  "no_kwargs = \<lparr>kw_description = None, kw_result = None, kw_cost_added = None,
     kw_model = None, kw_screenshots = None, kw_is_finished = None,
     kw_is_successful = None\<rparr>"

definition upd :: "'a option \<Rightarrow> 'a option \<Rightarrow> 'a option" where
  "upd new old = (case new of None \<Rightarrow> old | Some v \<Rightarrow> Some v)"

text \<open>
  Modelled from the spec: \<open>Event.update_event(**kwargs)\<close> (\<open>event.py\<close> is not among the
  sources), a partial update: an attribute whose keyword is given takes the new value, the
  others are left unchanged. Calls to the backend are outside the model.
\<close>

definition Event_update_event :: "'c event_kwargs \<Rightarrow> 'c event \<Rightarrow> 'c event" where
  "Event_update_event kw e =
     \<lparr>ev_description = upd (kw_description kw) (ev_description e),
      ev_result = upd (kw_result kw) (ev_result e),
      ev_cost_added = upd (kw_cost_added kw) (ev_cost_added e),
      ev_model = upd (kw_model kw) (ev_model e),
      ev_screenshots = upd (kw_screenshots kw) (ev_screenshots e),
      ev_is_finished = (case kw_is_finished kw of None \<Rightarrow> ev_is_finished e | Some b \<Rightarrow> b),
      ev_is_successful = upd (kw_is_successful kw) (ev_is_successful e)\<rparr>"

definition new_event :: "'c event" where
  "new_event = \<lparr>ev_description = None, ev_result = None, ev_cost_added = None,
     ev_model = None, ev_screenshots = None, ev_is_finished = False,
     ev_is_successful = None\<rparr>"

text \<open>
  A Step, as far as the functions below read it: its finished flag and its
  \<open>event_history\<close>, a list of references to Event objects.
\<close>

record step =
  st_is_finished :: bool
  event_history :: "nat list"

text \<open>
  A Session, as far as the functions below read it: \<open>active_step\<close> (a reference to a Step,
  or \<open>None\<close>) and \<open>step_history\<close> (a list of references to Steps; a slot may be empty).
\<close>

record session =
  active_step :: "nat option"
  step_history :: "nat option list"

record client =
  session :: "session option"

text \<open>
  The state of the process: the \<open>Client\<close> singleton (\<open>None\<close> before it is first
  constructed), the Step and Event objects by reference, the next fresh Event reference,
  and what has been printed.
\<close>

record 'c world =
  the_client :: "client option"
  steps :: "nat \<Rightarrow> step"
  events :: "nat \<Rightarrow> 'c event"
  next_event :: nat
  stdout :: "string list"

definition print :: "string \<Rightarrow> 'c world \<Rightarrow> 'c world" where
  "print msg s = s\<lparr>stdout := stdout s @ [msg]\<rparr>"

text \<open>
  Modelled from the spec: \<open>Client()\<close> without arguments (\<open>client.py\<close> is not among the
  sources). It returns the singleton, and raises \<open>LucidicNotInitializedError\<close> when the
  facade is used before \<open>init\<close>; \<open>init\<close> and \<open>cleanup\<close> catch exactly that exception.
\<close>

definition Client :: "'c world \<Rightarrow> error + client" where
  "Client s = (case the_client s of None \<Rightarrow> Inl LucidicNotInitializedError | Some c \<Rightarrow> Inr c)"

text \<open>
  Modelled from the spec: \<open>Client.clear_session()\<close> (\<open>client.py\<close> is not among the
  sources); ending a Session detaches it from the facade.
\<close>

definition clear_session :: "'c world \<Rightarrow> 'c world" where
  "clear_session s = s\<lparr>the_client := map_option (\<lambda>c. c\<lparr>session := None\<rparr>) (the_client s)\<rparr>"

text \<open>
  Modelled from the spec: \<open>Step.create_event(**kwargs)\<close> (\<open>step.py\<close> is not among the
  sources). It fails with \<open>InvalidOperationError\<close> if the Step is finished; otherwise it
  creates one Event from the keywords, appends it to the Step's history and returns it.
\<close>

definition Step_create_event ::
  "nat \<Rightarrow> 'c event_kwargs \<Rightarrow> 'c world \<Rightarrow> error + (nat \<times> 'c world)" where
  "Step_create_event r kw s =
     (if st_is_finished (steps s r)
      then Inl (InvalidOperationError ''Cannot create event in a finished step'')
      else let eid = next_event s
           in Inr (eid, s\<lparr>steps := (steps s)(r := (steps s r)\<lparr>event_history :=
                               event_history (steps s r) @ [eid]\<rparr>),
                          events := (events s)(eid := Event_update_event kw new_event),
                          next_event := Suc eid\<rparr>))"

section \<open>The client facade (\<open>lucidicai/__init__.py\<close>)\<close>

text \<open>
  Every function returns the exception it raises (\<open>None\<close> when it returns normally)
  together with the new state. The methods of \<open>Session\<close>, \<open>Step\<close> and \<open>Client\<close> that are
  called with \<open>**locals()\<close> and whose bodies are not among the sources are parameters:
  each is an arbitrary state transformer that may raise. The bundle of keyword arguments
  handed through to them has the open type \<open>'a\<close>.
\<close>

type_synonym ('a, 'c) pymethod = "'a \<Rightarrow> 'c world \<Rightarrow> error option \<times> 'c world"

datatype provider = OpenAI | Anthropic | LangChain

definition init ::
  "(string \<Rightarrow> string \<Rightarrow> 'c world \<Rightarrow> error option \<times> 'c world) \<Rightarrow> (provider, 'c) pymethod \<Rightarrow>
   ('a, 'c) pymethod \<Rightarrow> (string \<rightharpoonup> string) \<Rightarrow>
   'a \<Rightarrow> string option \<Rightarrow> string option \<Rightarrow> provider option \<Rightarrow>
   'c world \<Rightarrow> error option \<times> 'c world" where
  "init Client_new set_provider init_session getenv session_args lucidic_api_key agent_id
        provider s =
     (case (case lucidic_api_key of None \<Rightarrow> getenv ''LUCIDIC_API_KEY'' | Some k \<Rightarrow> Some k) of
        None \<Rightarrow> (Some (APIKeyVerificationError
          ''Make sure to either pass your API key into lai.init() or set the LUCIDIC_API_KEY environment variable.''), s)
      | Some key \<Rightarrow>
     (case (case agent_id of None \<Rightarrow> getenv ''LUCIDIC_AGENT_ID'' | Some a \<Rightarrow> Some a) of
        None \<Rightarrow> (Some (APIKeyVerificationError
          ''Lucidic agent ID not specified. Make sure to either pass your agent ID into lai.init() or set the LUCIDIC_AGENT_ID environment variable.''), s)
      | Some agent \<Rightarrow>
     (case (case Client s of
              Inr c \<Rightarrow>
                (if session c \<noteq> None
                 then (Some (InvalidOperationError
                   ''[Lucidic] Session already in progress. Please call lai.reset() first.''), s)
                 else (None, s))
            | Inl LucidicNotInitializedError \<Rightarrow> Client_new key agent s
            | Inl e \<Rightarrow> (Some e, s)) of
        (Some e, s1) \<Rightarrow> (Some e, s1)
      | (None, s1) \<Rightarrow>
     (case (case provider of
              Some OpenAI \<Rightarrow> set_provider OpenAI s1
            | Some Anthropic \<Rightarrow> set_provider Anthropic s1
            | Some LangChain \<Rightarrow> (None, print
                ''[Lucidic] For LangChain, make sure to create a handler and attach it to your top-level Agent class.'' s1)
            | None \<Rightarrow> (None, s1)) of
        (Some e, s2) \<Rightarrow> (Some e, s2)
      | (None, s2) \<Rightarrow>
     (case init_session session_args s2 of
        (Some e, s3) \<Rightarrow> (Some e, s3)
      | (None, s3) \<Rightarrow> (None, print ''[Lucidic] Session initialized successfully'' s3))))))"

definition update_session :: "('a, 'c) pymethod \<Rightarrow> 'a \<Rightarrow> 'c world \<Rightarrow> error option \<times> 'c world" where
  "update_session Session_update_session args s =
     (case Client s of
        Inl e \<Rightarrow> (Some e, s)
      | Inr c \<Rightarrow>
          (case session c of
             None \<Rightarrow> (None, print
               ''[Lucidic] Warning: update_session called when session not initialized. Please call lai.init() first.'' s)
           | Some sess \<Rightarrow> Session_update_session args s))"

text \<open>
  \<open>Session_end_session\<close> stands for \<open>client.session.end_session(is_finished=True, ...)\<close>.
\<close>

definition end_session :: "('a, 'c) pymethod \<Rightarrow> 'a \<Rightarrow> 'c world \<Rightarrow> error option \<times> 'c world" where
  "end_session Session_end_session args s =
     (case Client s of
        Inl e \<Rightarrow> (Some e, s)
      | Inr c \<Rightarrow>
          (case session c of
             None \<Rightarrow> (None, print
               ''[Lucidic] Warning: end_session called when session not initialized. Please call lai.init() first.'' s)
           | Some sess \<Rightarrow>
               (case Session_end_session args s of
                  (Some e, s1) \<Rightarrow> (Some e, s1)
                | (None, s1) \<Rightarrow> (None, clear_session s1))))"

text \<open>
  \<open>Session_update_step\<close> stands for \<open>client.session.update_step\<close>; its first argument is
  the \<open>is_finished\<close> keyword, which only \<open>end_step\<close> passes.
\<close>

definition update_step ::
  "(bool option \<Rightarrow> ('a, 'c) pymethod) \<Rightarrow> 'a \<Rightarrow> 'c world \<Rightarrow> error option \<times> 'c world" where
  "update_step Session_update_step args s =
     (case Client s of
        Inl e \<Rightarrow> (Some e, s)
      | Inr c \<Rightarrow>
          (case session c of
             None \<Rightarrow> (None, print
               ''[Lucidic] Warning: update_step called when session not initialized. Please call lai.init() first.'' s)
           | Some sess \<Rightarrow>
               (if active_step sess = None
                then (Some (InvalidOperationError ''No active step to update''), s)
                else Session_update_step None args s)))"

definition end_step ::
  "(bool option \<Rightarrow> ('a, 'c) pymethod) \<Rightarrow> 'a \<Rightarrow> 'c world \<Rightarrow> error option \<times> 'c world" where
  "end_step Session_update_step args s =
     (case Client s of
        Inl e \<Rightarrow> (Some e, s)
      | Inr c \<Rightarrow>
          (case session c of
             None \<Rightarrow> (None, print
               ''[Lucidic] Warning: end_step called when session not initialized. Please call lai.init() first.'' s)
           | Some sess \<Rightarrow>
               (if active_step sess = None
                then (Some (InvalidOperationError ''No active step to end''), s)
                else Session_update_step (Some True) args s)))"

text \<open>
  Python's \<open>xs[index]\<close> for a negative index that is in range, \<open>- len(xs) \<le> index < 0\<close>; the
  callers below check the range first.
\<close>

definition neg_index :: "'a list \<Rightarrow> int \<Rightarrow> 'a" where
  "neg_index xs index = xs ! nat (int (length xs) + index)"

text \<open>
  \<open>Step_update_step r\<close> stands for the method \<open>update_step\<close> of the Step object \<open>r\<close>.
\<close>

definition update_previous_step ::
  "(nat \<Rightarrow> ('a, 'c) pymethod) \<Rightarrow> int \<Rightarrow> 'a \<Rightarrow> 'c world \<Rightarrow> error option \<times> 'c world" where
  "update_previous_step Step_update_step index args s =
     (case Client s of
        Inl e \<Rightarrow> (Some e, s)
      | Inr c \<Rightarrow>
          (case session c of
             None \<Rightarrow> (None, print
               ''[Lucidic] Warning: update_previous_step called when session not initialized. Please call lai.init() first.'' s)
           | Some sess \<Rightarrow>
               (if index \<ge> 0
                then (Some (InvalidOperationError
                  ''Index must be negative, -1 is the latest step, -2 is the second latest, etc.''), s)
                else if index < - int (length (step_history sess))
                then (Some (InvalidOperationError ''Index out of bounds''), s)
                else (case neg_index (step_history sess) index of
                        None \<Rightarrow> (None, print
                          ''[Lucidic] Warning: update_previous_step called on an empty step. Please check your index.'' s)
                      | Some r \<Rightarrow> Step_update_step r args s))))"

text \<open>The keywords that \<open>**locals()\<close> passes on in the three event functions.\<close>

definition event_locals ::
  "pyval option \<Rightarrow> string option \<Rightarrow> 'c option \<Rightarrow> string option \<Rightarrow> pyval list option \<Rightarrow>
   'c event_kwargs" where
  "event_locals description result cost_added model screenshots =
     \<lparr>kw_description = description, kw_result = result, kw_cost_added = cost_added,
      kw_model = model, kw_screenshots = screenshots, kw_is_finished = None,
      kw_is_successful = None\<rparr>"

definition event_update :: "nat \<Rightarrow> 'c event_kwargs \<Rightarrow> 'c world \<Rightarrow> 'c world" where
  "event_update eid kw s = s\<lparr>events := (events s)(eid := Event_update_event kw (events s eid))\<rparr>"

definition update_event ::
  "pyval option \<Rightarrow> string option \<Rightarrow> 'c option \<Rightarrow> string option \<Rightarrow> pyval list option \<Rightarrow>
   'c world \<Rightarrow> error option \<times> 'c world" where
  "update_event description result cost_added model screenshots s =
     (case Client s of
        Inl e \<Rightarrow> (Some e, s)
      | Inr c \<Rightarrow>
          (case session c of
             None \<Rightarrow> (None, print
               ''[Lucidic] Warning: update_event called when session not initialized. Please call lai.init() first.'' s)
           | Some sess \<Rightarrow>
               (case active_step sess of
                  None \<Rightarrow> (Some (InvalidOperationError ''No active step to update event in''), s)
                | Some r \<Rightarrow>
                    (if event_history (steps s r) = []
                     then (Some (InvalidOperationError ''No events exist in the current step''), s)
                     else (None, event_update (last (event_history (steps s r)))
                             (event_locals description result cost_added model screenshots) s)))))"

definition update_previous_event ::
  "int \<Rightarrow> pyval option \<Rightarrow> string option \<Rightarrow> 'c option \<Rightarrow> string option \<Rightarrow> pyval list option \<Rightarrow>
   'c world \<Rightarrow> error option \<times> 'c world" where
  "update_previous_event index description result cost_added model screenshots s =
     (case Client s of
        Inl e \<Rightarrow> (Some e, s)
      | Inr c \<Rightarrow>
          (case session c of
             None \<Rightarrow> (None, print
               ''[Lucidic] Warning: update_previous_event called when session not initialized. Please call lai.init() first.'' s)
           | Some sess \<Rightarrow>
               (case active_step sess of
                  None \<Rightarrow> (Some (InvalidOperationError
                    ''No active step to update previous event in''), s)
                | Some r \<Rightarrow>
                    (if event_history (steps s r) = []
                     then (Some (InvalidOperationError ''No events exist in the current step''), s)
                     else if index \<ge> 0
                     then (Some (InvalidOperationError
                       ''Index must be negative, -1 is the latest event, -2 is the second latest, etc.''), s)
                     else if index < - int (length (event_history (steps s r)))
                     then (Some (InvalidOperationError ''Index out of bounds''), s)
                     else (None, event_update (neg_index (event_history (steps s r)) index)
                             (event_locals description result cost_added model screenshots) s)))))"

definition end_event ::
  "pyval option \<Rightarrow> string option \<Rightarrow> 'c option \<Rightarrow> string option \<Rightarrow> pyval list option \<Rightarrow>
   'c world \<Rightarrow> error option \<times> 'c world" where
  "end_event description result cost_added model screenshots s =
     (case Client s of
        Inl e \<Rightarrow> (Some e, s)
      | Inr c \<Rightarrow>
          (case session c of
             None \<Rightarrow> (None, print
               ''[Lucidic] Warning: end_event called when session not initialized. Please call lai.init() first.'' s)
           | Some sess \<Rightarrow>
               (case active_step sess of
                  None \<Rightarrow> (Some (InvalidOperationError ''No active step to end event in''), s)
                | Some r \<Rightarrow>
                    (if event_history (steps s r) = []
                     then (Some (InvalidOperationError ''No events exist in the current step''), s)
                     else let latest_event = last (event_history (steps s r))
                          in if ev_is_finished (events s latest_event)
                             then (Some (InvalidOperationError ''Latest event is already finished''), s)
                             else (None, event_update latest_event
                                     ((event_locals description result cost_added model screenshots)
                                        \<lparr>kw_is_finished := Some True\<rparr>) s)))))"


subsection \<open>Prompt resolution\<close>

text \<open>
  \<open>s.find(sub)\<close>: the lowest index at which \<open>sub\<close> occurs in \<open>s\<close>, or \<open>-1\<close>.
\<close>

fun find_from :: "nat \<Rightarrow> string \<Rightarrow> string \<Rightarrow> int" where
  "find_from i [] sub = (if sub = [] then int i else - 1)"
| "find_from i (c # cs) sub =
     (if prefix sub (c # cs) then int i else find_from (Suc i) cs sub)"

definition py_find :: "string \<Rightarrow> string \<Rightarrow> int" where
  "py_find s sub = find_from 0 s sub"

text \<open>\<open>sub in s\<close> for strings.\<close>

definition py_in :: "string \<Rightarrow> string \<Rightarrow> bool" where
  "py_in sub s = (py_find s sub \<noteq> - 1)"

text \<open>
  \<open>s.replace(old, new)\<close>: every occurrence of \<open>old\<close>, found from left to right without
  overlap, is replaced by \<open>new\<close>; an empty \<open>old\<close> matches before every character and at
  the end.
\<close>

function py_replace :: "string \<Rightarrow> string \<Rightarrow> string \<Rightarrow> string" where
  "py_replace [] old new = (if old = [] then new else [])"
| "py_replace (c # cs) old new =
     (if old = [] then new @ c # py_replace cs old new
      else if prefix old (c # cs) then new @ py_replace (drop (length old) (c # cs)) old new
      else c # py_replace cs old new)"
  by pat_completeness auto
termination
  by (relation "measure (\<lambda>(s, old, new). length s)") auto

text \<open>
  The loop of \<open>get_prompt\<close> over \<open>variables.items()\<close>; the values are given by their
  \<open>str()\<close>.
\<close>

fun substitute :: "string \<Rightarrow> (string \<times> string) list \<Rightarrow> error + string" where
  "substitute prompt [] = Inr prompt"
| "substitute prompt ((key, val) # variables) =
     (if py_find prompt (''{{'' @ key @ ''}}'') = - 1
      then Inl (PromptError ''Supplied variable not found in prompt'')
      else substitute (py_replace prompt (''{{'' @ key @ ''}}'') val) variables)"

definition unreplaced :: "string \<Rightarrow> bool" where
  "unreplaced prompt =
     (py_in ''{{'' prompt \<and> py_in ''}}'' prompt \<and> py_find prompt ''{{'' < py_find prompt ''}}'')"

text \<open>
  \<open>Client_get_prompt\<close> stands for \<open>client.get_prompt(prompt_name, cache_ttl, label)\<close>, the
  cached fetch of the template from the backend.
\<close>

definition get_prompt ::
  "(string \<Rightarrow> int option \<Rightarrow> string option \<Rightarrow> 'c world \<Rightarrow> (error + string) \<times> 'c world) \<Rightarrow>
   string \<Rightarrow> (string \<times> string) list option \<Rightarrow> int option \<Rightarrow> string option \<Rightarrow>
   'c world \<Rightarrow> (error + string) \<times> 'c world" where
  "get_prompt Client_get_prompt prompt_name variables cache_ttl label s =
     (case Client s of
        Inl e \<Rightarrow> (Inl e, s)
      | Inr c \<Rightarrow>
          (case session c of
             None \<Rightarrow> (Inr [], print
               ''[Lucidic] Warning: get_prompt called when session not initialized, and will return an empty string. Please call lai.init() first.'' s)
           | Some sess \<Rightarrow>
               (case Client_get_prompt prompt_name cache_ttl label s of
                  (Inl e, s1) \<Rightarrow> (Inl e, s1)
                | (Inr prompt, s1) \<Rightarrow>
                    (case (case variables of
                             None \<Rightarrow> Inr prompt
                           | Some vars \<Rightarrow> if vars = [] then Inr prompt else substitute prompt vars) of
                       Inl e \<Rightarrow> (Inl e, s1)
                     | Inr prompt' \<Rightarrow>
                         (Inr prompt',
                          if unreplaced prompt'
                          then print ''[Lucidic] Warning: Unreplaced variable(s) left in prompt. Please check your prompt.'' s1
                          else s1)))))"


section \<open>The LangChain callback handler (\<open>lucidicai/providers/langchain.py\<close>)\<close>

text \<open>
  The handler's two correlation maps. A run identifier is given by \<open>str(run_id)\<close>; an
  Event is held by reference.
\<close>

record handler =
  run_to_model :: "string \<rightharpoonup> string"
  run_to_event :: "string \<rightharpoonup> nat"

text \<open>
  \<open>_get_model_name(serialized, kwargs)\<close>. \<open>serialized\<close> is a dictionary or \<open>None\<close>; of
  \<open>kwargs\<close> only the entry \<open>invocation_params\<close> is read (\<open>None\<close>: no such entry).
\<close>

definition get_model_name ::
  "(string \<times> string) list option \<Rightarrow> (string \<times> string) list option \<Rightarrow> string" where
  "get_model_name serialized invocation_params =
     (case (case invocation_params of None \<Rightarrow> None | Some ip \<Rightarrow> map_of ip ''model'') of
        Some m \<Rightarrow> m
      | None \<Rightarrow>
     (case (case serialized of None \<Rightarrow> None | Some d \<Rightarrow> map_of d ''model_name'') of
        Some m \<Rightarrow> m
      | None \<Rightarrow>
     (case (case serialized of None \<Rightarrow> None | Some d \<Rightarrow> map_of d ''name'') of
        Some m \<Rightarrow> m
      | None \<Rightarrow> ''unknown_model'')))"

text \<open>The loop of \<open>on_llm_start\<close> over \<open>prompts\<close>, filling \<open>text\<close> and \<open>images\<close>.\<close>

fun llm_prompts :: "pyval list \<Rightarrow> pyval list \<Rightarrow> pyval list \<Rightarrow> pyval list \<times> pyval list" where
  "llm_prompts [] text images = (text, images)"
| "llm_prompts (PStr prompt # prompts) text images =
     llm_prompts prompts (text @ [PStr prompt]) images"
| "llm_prompts (PDict prompt # prompts) text images =
     (case map_of prompt ''image'' of
        Some img \<Rightarrow> llm_prompts prompts text (images @ [img])
      | None \<Rightarrow> llm_prompts prompts text images)"
| "llm_prompts (prompt # prompts) text images = llm_prompts prompts text images"

text \<open>
  \<open>Client().session and Client().session.active_step\<close>: the active Step if there is a
  Session with one, \<open>None\<close> if the conjunction is falsy; \<open>Client()\<close> may raise.
\<close>

definition session_and_active_step :: "'c world \<Rightarrow> error + nat option" where
  "session_and_active_step s =
     (case Client s of
        Inl e \<Rightarrow> Inl e
      | Inr c \<Rightarrow> Inr (case session c of None \<Rightarrow> None | Some sess \<Rightarrow> active_step sess))"

text \<open>
  \<open>traceback.format_exc()\<close>; of the traceback only the exception's message is kept.
\<close>

definition format_exc :: "error \<Rightarrow> string" where
  "format_exc e = ''Traceback (most recent call last): '' @ error_str e"

text \<open>
  A callback returns the exception that escapes to the host framework (\<open>None\<close> when it
  returns normally), the handler and the state.
\<close>

definition on_llm_start ::
  "handler \<Rightarrow> (string \<times> string) list option \<Rightarrow> pyval list \<Rightarrow> string \<Rightarrow>
   (string \<times> string) list option \<Rightarrow> 'c world \<Rightarrow> error option \<times> handler \<times> 'c world" where
  "on_llm_start self serialized prompts run_id invocation_params s =
     (let s1 = print ''[Lucidic] Starting LLM call in Langchain Handler, creating event...'' s;
          model = get_model_name serialized invocation_params;
          self1 = self\<lparr>run_to_model := (run_to_model self)(run_id \<mapsto> model)\<rparr>;
          (text, images) = llm_prompts prompts [] []
      in case session_and_active_step s1 of
           Inl e \<Rightarrow> (Some e, self1, s1)
         | Inr None \<Rightarrow>
             (None, self1, print ''[Lucidic] Cannot create event - no active session or step'' s1)
         | Inr (Some r) \<Rightarrow>
             (case Step_create_event r
                     (no_kwargs\<lparr>kw_description := Some (PList text),
                                kw_screenshots := Some images\<rparr>) s1 of
                Inl e \<Rightarrow>
                  (None, self1,
                   print (format_exc e) (print (''[Lucidic] Error creating event: '' @ error_str e) s1))
              | Inr (event, s2) \<Rightarrow>
                  (None, self1\<lparr>run_to_event := (run_to_event self1)(run_id \<mapsto> event)\<rparr>, s2)))"

text \<open>\<open>d.get(key, default)\<close>.\<close>

definition py_get :: "(string \<times> pyval) list \<Rightarrow> string \<Rightarrow> pyval \<Rightarrow> pyval" where
  "py_get d key dflt = (case map_of d key of None \<Rightarrow> dflt | Some v \<Rightarrow> v)"

text \<open>
  The body of the innermost loop of \<open>on_chat_model_start\<close>, for one \<open>block\<close> of a list
  content. \<open>.get\<close> exists on dictionaries only and \<open>.find\<close> on strings only; on any other
  value the attribute lookup raises \<open>AttributeError\<close>.
\<close>

fun chat_block :: "pyval \<Rightarrow> pyval list \<times> pyval list \<Rightarrow> error + (pyval list \<times> pyval list)" where
  "chat_block (PDict block) (text, images_b64) =
     (if map_of block ''type'' = Some (PStr ''text'')
      then Inr (text @ [py_get block ''text'' (PStr [])], images_b64)
      else if map_of block ''type'' = Some (PStr ''image_url'')
      then (case py_get block ''image_url'' (PStr []) of
              PDict image_url \<Rightarrow>
                (case py_get image_url ''url'' (PStr []) of
                   PStr image_str \<Rightarrow>
                     Inr (text, images_b64 @
                            [PStr (drop (nat (py_find image_str '','' + 1)) image_str)])
                 | _ \<Rightarrow> Inl (AttributeError ''object has no attribute find''))
            | _ \<Rightarrow> Inl (AttributeError ''object has no attribute get''))
      else Inr (text, images_b64))"
| "chat_block block acc = Inr acc"

fun chat_blocks :: "pyval list \<Rightarrow> pyval list \<times> pyval list \<Rightarrow> error + (pyval list \<times> pyval list)" where
  "chat_blocks [] acc = Inr acc"
| "chat_blocks (block # blocks) acc =
     (case chat_block block acc of Inl e \<Rightarrow> Inl e | Inr acc' \<Rightarrow> chat_blocks blocks acc')"

text \<open>
  The loop over \<open>messages[0]\<close>; a message is given by its \<open>content\<close>.
\<close>

fun chat_messages :: "pyval list \<Rightarrow> pyval list \<times> pyval list \<Rightarrow> error + (pyval list \<times> pyval list)" where
  "chat_messages [] acc = Inr acc"
| "chat_messages (PStr content # msgs) (text, images_b64) =
     chat_messages msgs (text @ [PStr content], images_b64)"
| "chat_messages (PList content # msgs) acc =
     (case chat_blocks content acc of Inl e \<Rightarrow> Inl e | Inr acc' \<Rightarrow> chat_messages msgs acc')"
| "chat_messages (content # msgs) acc = chat_messages msgs acc"

definition on_chat_model_start ::
  "handler \<Rightarrow> (string \<times> string) list option \<Rightarrow> pyval list list \<Rightarrow> string \<Rightarrow>
   (string \<times> string) list option \<Rightarrow> 'c world \<Rightarrow> error option \<times> handler \<times> 'c world" where
  "on_chat_model_start self serialized messages run_id invocation_params s =
     (let s1 = print ''[Lucidic] Starting LLM call in Langchain Handler, creating event...'' s;
          model = get_model_name serialized invocation_params;
          self1 = self\<lparr>run_to_model := (run_to_model self)(run_id \<mapsto> model)\<rparr>
      in case (case messages of [] \<Rightarrow> Inr ([], []) | msgs # _ \<Rightarrow> chat_messages msgs ([], [])) of
           Inl e \<Rightarrow> (Some e, self1, s1)
         | Inr (text, images_b64) \<Rightarrow>
             (case session_and_active_step s1 of
                Inl e \<Rightarrow> (Some e, self1, s1)
              | Inr None \<Rightarrow>
                  (None, self1, print ''[Lucidic] Cannot create event - no active session or step'' s1)
              | Inr (Some r) \<Rightarrow>
                  (case Step_create_event r
                          (no_kwargs\<lparr>kw_description := Some (PList text),
                                     kw_screenshots := Some images_b64\<rparr>) s1 of
                     Inl e \<Rightarrow>
                       (None, self1, print (''[Lucidic] Error creating event: '' @ error_str e) s1)
                   | Inr (event, s2) \<Rightarrow>
                       (None, self1\<lparr>run_to_event := (run_to_event self1)(run_id \<mapsto> event)\<rparr>, s2))))"

text \<open>
  The response of \<open>on_llm_end\<close> is given by \<open>response.generations\<close>. A generation is
  either a plain \<open>Generation\<close>, which has a text and no attribute \<open>message\<close>, or a
  \<open>ChatGeneration\<close> with its \<open>message\<close>, of which \<open>usage_metadata\<close> and \<open>pretty_repr()\<close>
  are read. \<open>calculate_cost\<close> (\<open>model_pricing.py\<close>) is a parameter.
\<close>

record 'u message =
  usage_metadata :: 'u
  pretty_repr :: string

datatype 'u generation = Generation string | ChatGeneration "'u message"

text \<open>
  \<open>response.generations[0][0].message\<close> under the guard
  \<open>response.generations and response.generations[0]\<close>: the local variable \<open>message\<close> is
  bound only if there is a first generation (\<open>None\<close>: unbound), and the attribute lookup
  raises \<open>AttributeError\<close> on a plain \<open>Generation\<close>. This happens outside the \<open>try\<close>.
\<close>

definition first_message :: "'u generation list list \<Rightarrow> error + 'u message option" where
  "first_message generations =
     (case generations of
        (Generation t # _) # _ \<Rightarrow> Inl (AttributeError ''Generation object has no attribute message'')
      | (ChatGeneration m # _) # _ \<Rightarrow> Inr (Some m)
      | _ \<Rightarrow> Inr None)"

definition on_llm_end ::
  "(string \<Rightarrow> 'u \<Rightarrow> 'c) \<Rightarrow> handler \<Rightarrow> 'u generation list list \<Rightarrow> string \<Rightarrow> 'c world \<Rightarrow>
   error option \<times> handler \<times> 'c world" where
  "on_llm_end calculate_cost self generations run_id s =
     (let s1 = print ''[Lucidic] Ending LLM call in Langchain Handler, ending event...'' s;
          model = (case run_to_model self run_id of None \<Rightarrow> ''unknown'' | Some m \<Rightarrow> m)
      in case first_message generations of
           Inl e \<Rightarrow> (Some e, self, s1)
         | Inr message \<Rightarrow>
      let cost = map_option (\<lambda>m. calculate_cost model (usage_metadata m)) message
      in case session_and_active_step s1 of
           Inl e \<Rightarrow> (Some e, self, s1)
         | Inr None \<Rightarrow>
             (None, self, print ''[Lucidic] Cannot end event - no active session or step'' s1)
         | Inr (Some r) \<Rightarrow>
             (let (self2, s2) =
                (case run_to_event self run_id of
                   Some event \<Rightarrow>
                     (if \<not> ev_is_finished (events s1 event)
                      then (case message of
                              None \<Rightarrow>
                                (let e = UnboundLocalError
                                   ''cannot access local variable message where it is not associated with a value''
                                 in (self, print (format_exc e)
                                      (print (''[Lucidic] Error in event ending: '' @ error_str e) s1)))
                            | Some m \<Rightarrow>
                                (self\<lparr>run_to_event := (run_to_event self)(run_id := None)\<rparr>,
                                 event_update event
                                   (no_kwargs\<lparr>kw_is_finished := Some True,
                                              kw_is_successful := Some True,
                                              kw_cost_added := cost,
                                              kw_model := Some model,
                                              kw_result := Some (pretty_repr m)\<rparr>) s1))
                      else (self\<lparr>run_to_event := (run_to_event self)(run_id := None)\<rparr>,
                            print ''[Lucidic] Event already finished'' s1))
                 | None \<Rightarrow> (self, print ''[Lucidic] No event found'' s1))
              in (None, self2\<lparr>run_to_model := (run_to_model self2)(run_id := None)\<rparr>, s2)))"

definition on_llm_error :: "handler \<Rightarrow> string \<Rightarrow> 'c world \<Rightarrow> error option \<times> handler \<times> 'c world" where
  "on_llm_error self run_id s =
     (let s1 = print ''[Lucidic] Handling LLM error in Langchain Handler, ending event...'' s;
          model = (case run_to_model self run_id of None \<Rightarrow> ''unknown'' | Some m \<Rightarrow> m)
      in case session_and_active_step s1 of
           Inl e \<Rightarrow> (Some e, self, s1)
         | Inr None \<Rightarrow>
             (None, self, print ''[Lucidic] Cannot end event - no active session or step'' s1)
         | Inr (Some r) \<Rightarrow>
             (let (self2, s2) =
                (case run_to_event self run_id of
                   Some event \<Rightarrow>
                     (self\<lparr>run_to_event := (run_to_event self)(run_id := None)\<rparr>,
                      if \<not> ev_is_finished (events s1 event)
                      then print ''[Lucidic] Ended event with error''
                             (event_update event
                                (no_kwargs\<lparr>kw_is_finished := Some True, kw_model := Some model\<rparr>) s1)
                      else s1)
                 | None \<Rightarrow> (self, print ''[Lucidic] No event found for'' s1))
              in (None, self2\<lparr>run_to_model := (run_to_model self2)(run_id := None)\<rparr>, s2)))"

text \<open>
  The host framework firing \<open>on_llm_start\<close> and then, for the same run, \<open>on_llm_end\<close> or
  \<open>on_llm_error\<close>.
\<close>

definition llm_start_then_end ::
  "(string \<Rightarrow> 'u \<Rightarrow> 'c) \<Rightarrow> handler \<Rightarrow> (string \<times> string) list option \<Rightarrow> pyval list \<Rightarrow> string \<Rightarrow>
   (string \<times> string) list option \<Rightarrow> 'u generation list list \<Rightarrow> 'c world \<Rightarrow>
   error option \<times> handler \<times> 'c world" where
  "llm_start_then_end calculate_cost self serialized prompts run_id invocation_params generations s =
     (case on_llm_start self serialized prompts run_id invocation_params s of
        (Some e, self1, s1) \<Rightarrow> (Some e, self1, s1)
      | (None, self1, s1) \<Rightarrow> on_llm_end calculate_cost self1 generations run_id s1)"

definition llm_start_then_error ::
  "handler \<Rightarrow> (string \<times> string) list option \<Rightarrow> pyval list \<Rightarrow> string \<Rightarrow>
   (string \<times> string) list option \<Rightarrow> 'c world \<Rightarrow> error option \<times> handler \<times> 'c world" where
  "llm_start_then_error self serialized prompts run_id invocation_params s =
     (case on_llm_start self serialized prompts run_id invocation_params s of
        (Some e, self1, s1) \<Rightarrow> (Some e, self1, s1)
      | (None, self1, s1) \<Rightarrow> on_llm_error self1 run_id s1)"


subsection \<open>Attachment to a host object\<close>

text \<open>
  The host object graph as \<open>attach_to_llms\<close> sees it. A registered callback is a
  \<open>LucidicLangchainHandler\<close> instance or some other handler, each known by its identity.
  An object has a class name, possibly an attribute \<open>callbacks\<close> (absent, \<open>None\<close>, or a
  list object held by reference, so that two objects may share one list), and the names
  that \<open>dir()\<close> yields, each with the object that \<open>getattr\<close> returns for it (\<open>None\<close> when
  \<open>getattr\<close> raises).
\<close>

datatype callback = LucidicLangchainHandler nat | OtherHandler nat

fun is_lucidic :: "callback \<Rightarrow> bool" where
  "is_lucidic (LucidicLangchainHandler h) = True"
| "is_lucidic (OtherHandler h) = False"

datatype callbacks_attr = NoAttr | AttrNone | AttrList nat

record pyobject =
  class_name :: string
  callbacks :: callbacks_attr
  members :: "(string \<times> nat option) list"

record heap =
  objects :: "nat \<Rightarrow> pyobject"
  lists :: "nat \<Rightarrow> callback list"
  next_list :: nat
  printed :: "string list"

definition say :: "string \<Rightarrow> heap \<Rightarrow> heap" where
  "say msg g = g\<lparr>printed := printed g @ [msg]\<rparr>"

text \<open>A new empty list object, for \<open>[]\<close>.\<close>

definition new_list :: "heap \<Rightarrow> nat \<times> heap" where
  "new_list g = (next_list g, g\<lparr>lists := (lists g)(next_list g := []),
                                 next_list := Suc (next_list g)\<rparr>)"

text \<open>
  The block guarded by \<open>hasattr(x, 'callbacks')\<close>, which occurs once for the host and once
  in the loop; \<open>what\<close> is the text that ends the printed line.
\<close>

definition attach_callbacks :: "nat \<Rightarrow> nat \<Rightarrow> string \<Rightarrow> heap \<Rightarrow> heap" where
  "attach_callbacks self x what g =
     (case callbacks (objects g x) of
        NoAttr \<Rightarrow> g
      | attr \<Rightarrow>
          (let (cbs, g1) =
                 (case attr of
                    AttrList l \<Rightarrow> if lists g l \<noteq> [] then (l, g) else new_list g
                  | _ \<Rightarrow> new_list g)
           in if \<not> list_ex is_lucidic (lists g1 cbs)
              then say (''[Lucidic] Successfully attached to '' @ what)
                     (g1\<lparr>lists := (lists g1)(cbs := lists g1 cbs @ [LucidicLangchainHandler self]),
                         objects := (objects g1)(x := (objects g1 x)\<lparr>callbacks := AttrList cbs\<rparr>)\<rparr>)
              else say (''[Lucidic] Already attached to '' @ what) g1))"

definition startswith_underscore :: "string \<Rightarrow> bool" where
  "startswith_underscore name = (case name of [] \<Rightarrow> False | c # _ \<Rightarrow> c = CHR ''_'')"

fun attach_members :: "nat \<Rightarrow> (string \<times> nat option) list \<Rightarrow> heap \<Rightarrow> heap" where
  "attach_members self [] g = g"
| "attach_members self ((attr_name, target) # rest) g =
     attach_members self rest
       (if startswith_underscore attr_name then g
        else case target of
               None \<Rightarrow> say (''[Lucidic] Warning: Could not attach to '' @ attr_name) g
             | Some attr \<Rightarrow>
                 attach_callbacks self attr
                   (class_name (objects g attr) @ '' in '' @ attr_name) g)"



definition lucidic_count :: "heap \<Rightarrow> nat \<Rightarrow> nat" where
  "lucidic_count g x =
     (case callbacks (objects g x) of
        AttrList l \<Rightarrow> length (filter is_lucidic (lists g l))
      | _ \<Rightarrow> 0)"

text \<open>
  Notions used to state and prove the attachment property: an object is \<open>attached\<close> when
  its \<open>callbacks\<close> is a list that holds a \<open>LucidicLangchainHandler\<close>; two heaps are the
  same when they differ in the printed lines only; \<open>append_attach\<close> is the effect of the
  branch that appends; \<open>targets\<close> are the attribute values that the loop visits.
\<close>

definition attached :: "heap \<Rightarrow> nat \<Rightarrow> bool" where
  "attached g x =
     (case callbacks (objects g x) of
        AttrList l \<Rightarrow> list_ex is_lucidic (lists g l)
      | _ \<Rightarrow> False)"

definition same_heap :: "heap \<Rightarrow> heap \<Rightarrow> bool" where
  "same_heap g g' = (objects g = objects g' \<and> lists g = lists g' \<and> next_list g = next_list g')"

definition append_attach :: "nat \<Rightarrow> nat \<Rightarrow> nat \<Rightarrow> heap \<Rightarrow> heap" where
  "append_attach self x l g =
     g\<lparr>lists := (lists g)(l := lists g l @ [LucidicLangchainHandler self]),
       objects := (objects g)(x := (objects g x)\<lparr>callbacks := AttrList l\<rparr>)\<rparr>"

definition targets :: "(string \<times> nat option) list \<Rightarrow> nat list" where
  "targets ms = List.map_filter (\<lambda>(attr_name, target). if startswith_underscore attr_name then None else target) ms"

section \<open>Example states\<close>

text \<open>
  Concrete collaborators and states on which the theorems below are exercised: methods
  that do nothing, an empty environment, a backend that returns a fixed template, and the
  facade before \<open>init\<close>, with no Session, with a Session, with an active Step, with one
  open Event and with one finished Event.
\<close>

definition skip :: "('a, 'c) pymethod" where
  "skip args s = (None, s)"

definition skip_flag :: "bool option \<Rightarrow> ('a, 'c) pymethod" where
  "skip_flag flag args s = (None, s)"

definition skip_step :: "nat \<Rightarrow> ('a, 'c) pymethod" where
  "skip_step r args s = (None, s)"

definition no_env :: "string \<rightharpoonup> string" where
  "no_env name = None"

definition skip_new :: "string \<Rightarrow> string \<Rightarrow> nat world \<Rightarrow> error option \<times> nat world" where
  "skip_new key agent s = (None, s)"

definition fetch_const ::
  "string \<Rightarrow> string \<Rightarrow> int option \<Rightarrow> string option \<Rightarrow> nat world \<Rightarrow> (error + string) \<times> nat world" where
  "fetch_const template prompt_name cache_ttl label s = (Inr template, s)"

definition no_steps :: "nat \<Rightarrow> step" where
  "no_steps r = \<lparr>st_is_finished = False, event_history = []\<rparr>"

definition no_events :: "nat \<Rightarrow> nat event" where
  "no_events r = new_event"

definition uninitialised_world :: "nat world" where
  "uninitialised_world = \<lparr>the_client = None, steps = no_steps, events = no_events,
     next_event = 0, stdout = []\<rparr>"

definition idle_client :: client where
  "idle_client = \<lparr>session = None\<rparr>"

definition idle_world :: "nat world" where
  "idle_world = \<lparr>the_client = Some idle_client, steps = no_steps, events = no_events,
     next_event = 0, stdout = []\<rparr>"

definition session0 :: session where
  "session0 = \<lparr>active_step = None, step_history = []\<rparr>"

definition session_world :: "nat world" where
  "session_world = idle_world\<lparr>the_client := Some \<lparr>session = Some session0\<rparr>\<rparr>"

definition session1 :: session where
  "session1 = \<lparr>active_step = Some 0, step_history = [Some 0]\<rparr>"

definition step_world :: "nat world" where
  "step_world = idle_world\<lparr>the_client := Some \<lparr>session = Some session1\<rparr>\<rparr>"

definition event_world :: "nat world" where
  "event_world = step_world\<lparr>steps := no_steps(0 := \<lparr>st_is_finished = False, event_history = [0]\<rparr>),
     next_event := 1\<rparr>"

definition finished_event_world :: "nat world" where
  "finished_event_world = event_world\<lparr>events := no_events(0 := new_event\<lparr>ev_is_finished := True\<rparr>)\<rparr>"

definition handler0 :: handler where
  "handler0 = \<lparr>run_to_model = Map.empty, run_to_event = Map.empty\<rparr>"

definition unit_cost :: "string \<Rightarrow> nat \<Rightarrow> nat" where
  "unit_cost model usage = usage"

definition one_generation :: "nat generation list list" where
  "one_generation = [[ChatGeneration \<lparr>usage_metadata = 3, pretty_repr = ''out''\<rparr>]]"

definition plain_generation :: "nat generation list list" where
  "plain_generation = [[Generation ''out'']]"

definition no_generations :: "nat generation list list" where
  "no_generations = []"

text \<open>
  A chat message whose content has an image block with the URL given as a plain string.
\<close>

definition image_block_messages :: "pyval list list" where
  "image_block_messages =
     [[PList [PDict [(''type'', PStr ''image_url''), (''image_url'', PStr ''http://x/y.png'')]]]]"








lemmas example_defs = uninitialised_world_def idle_world_def idle_client_def session_world_def session0_def
  step_world_def session1_def event_world_def finished_event_world_def no_steps_def
  no_events_def


section \<open>Properties of the client facade\<close>

lemma event_update_simps:
  "the_client (event_update eid kw s) = the_client s"
  "steps (event_update eid kw s) = steps s"
  "events (event_update eid kw s) eid = Event_update_event kw (events s eid)"
  by (simp_all add: event_update_def)

lemma finished_after_end:
  "kw_is_finished kw = Some True \<Longrightarrow> ev_is_finished (Event_update_event kw e)"
  by (simp add: Event_update_event_def)

lemma neg_index_last: "xs \<noteq> [] \<Longrightarrow> neg_index xs (- 1) = last xs"
  by (simp add: neg_index_def last_conv_nth nat_diff_distrib')

text \<open>
  With the facade initialised and no Session held, \<open>get_prompt\<close> prints its warning and
  returns the empty string. The result does not depend on the backend fetch
  \<open>Client_get_prompt\<close> nor on \<open>variables\<close>, and the state changes by the printed line only:
  nothing is fetched, nothing is substituted, and no \<open>PromptError\<close> is raised.
\<close>

lemma get_prompt_no_session:
  assumes "the_client s = Some c" and "session c = None"
  shows "get_prompt Client_get_prompt prompt_name variables cache_ttl label s =
    (Inr [], print ''[Lucidic] Warning: get_prompt called when session not initialized, and will return an empty string. Please call lai.init() first.'' s)"
  using assms by (simp add: get_prompt_def Client_def)

lemma get_prompt_no_session_example:
  "the_client idle_world = Some idle_client \<and> session idle_client = None \<and>
   get_prompt (fetch_const ''Hello {{name}}'') ''greeting'' (Some [(''city'', ''X'')])
       (Some 300) (Some ''production'') idle_world =
     (Inr [], print ''[Lucidic] Warning: get_prompt called when session not initialized, and will return an empty string. Please call lai.init() first.'' idle_world)"
  using get_prompt_no_session [of idle_world idle_client "fetch_const ''Hello {{name}}''"
      "''greeting''" "Some [(''city'', ''X'')]" "Some 300" "Some ''production''"]
  by (simp add: idle_world_def idle_client_def)

text \<open>
  C10, at the input where the code departs from it: \<open>get_prompt\<close> called before \<open>init\<close>.
  No Session is active, but \<open>Client()\<close> raises \<open>LucidicNotInitializedError\<close> before the
  test of \<open>client.session\<close> is reached: the caller gets the exception, not the empty
  string, and no warning is printed.
\<close>

theorem get_prompt_before_init:
  "get_prompt (fetch_const ''Hello {{name}}'') ''greeting'' None (Some 300) (Some ''production'')
       uninitialised_world =
     (Inl LucidicNotInitializedError, uninitialised_world)"
  by (simp add: get_prompt_def Client_def uninitialised_world_def)

text \<open>
  C3, as stated, fails: with a Session but no active Step, \<open>update_step\<close> raises
  \<open>InvalidOperationError\<close> instead of warning.
\<close>

theorem update_step_counterexample:
  "fst (update_step skip_flag () session_world) =
     Some (InvalidOperationError ''No active step to update'')"
  by (simp add: update_step_def Client_def example_defs)

text \<open>
  C3, amended. With the facade initialised: when no Session is active, each of
  \<open>update_session\<close>, \<open>end_session\<close>, \<open>update_step\<close>, \<open>end_step\<close>, \<open>update_event\<close> and
  \<open>end_event\<close> prints a warning, changes nothing else and raises nothing; when a Session
  is active but no Step is, \<open>update_step\<close>, \<open>end_step\<close>, \<open>update_event\<close> and \<open>end_event\<close>
  raise \<open>InvalidOperationError\<close> and leave the state unchanged; and when the active Step
  has no Event, \<open>update_event\<close> and \<open>end_event\<close> raise \<open>InvalidOperationError\<close>.
\<close>

theorem inactive_calls:
  fixes s :: "'c world"
  assumes "the_client s = Some c"
  shows "(session c = None \<longrightarrow>
      update_session Session_update_session args1 s = (None, print
        ''[Lucidic] Warning: update_session called when session not initialized. Please call lai.init() first.'' s) \<and>
      end_session Session_end_session args2 s = (None, print
        ''[Lucidic] Warning: end_session called when session not initialized. Please call lai.init() first.'' s) \<and>
      update_step Session_update_step args3 s = (None, print
        ''[Lucidic] Warning: update_step called when session not initialized. Please call lai.init() first.'' s) \<and>
      end_step Session_update_step args3 s = (None, print
        ''[Lucidic] Warning: end_step called when session not initialized. Please call lai.init() first.'' s) \<and>
      update_event description result cost_added model screenshots s = (None, print
        ''[Lucidic] Warning: update_event called when session not initialized. Please call lai.init() first.'' s) \<and>
      end_event description result cost_added model screenshots s = (None, print
        ''[Lucidic] Warning: end_event called when session not initialized. Please call lai.init() first.'' s))
    \<and> (\<forall>sess. session c = Some sess \<and> active_step sess = None \<longrightarrow>
      update_step Session_update_step args3 s = (Some (InvalidOperationError ''No active step to update''), s) \<and>
      end_step Session_update_step args3 s = (Some (InvalidOperationError ''No active step to end''), s) \<and>
      update_event description result cost_added model screenshots s =
        (Some (InvalidOperationError ''No active step to update event in''), s) \<and>
      end_event description result cost_added model screenshots s =
        (Some (InvalidOperationError ''No active step to end event in''), s))
    \<and> (\<forall>sess r. session c = Some sess \<and> active_step sess = Some r \<and> event_history (steps s r) = [] \<longrightarrow>
      update_event description result cost_added model screenshots s =
        (Some (InvalidOperationError ''No events exist in the current step''), s) \<and>
      end_event description result cost_added model screenshots s =
        (Some (InvalidOperationError ''No events exist in the current step''), s))"
  using assms
  by (simp add: update_session_def end_session_def update_step_def end_step_def
      update_event_def end_event_def Client_def)

text \<open>
  C3 amended, at concrete inputs: \<open>end_session\<close> without a Session, \<open>end_step\<close> with a
  Session but no Step, and \<open>end_event\<close> in a Step without Events.
\<close>

theorem inactive_calls_witness:
  "end_session skip () idle_world = (None, print
      ''[Lucidic] Warning: end_session called when session not initialized. Please call lai.init() first.'' idle_world) \<and>
   end_step skip_flag () session_world =
     (Some (InvalidOperationError ''No active step to end''), session_world) \<and>
   end_event None None None None None step_world =
     (Some (InvalidOperationError ''No events exist in the current step''), step_world)"
proof -
  have 1: "the_client idle_world = Some idle_client" "session idle_client = None"
    by (simp_all add: example_defs)
  have 2: "the_client session_world = Some \<lparr>session = Some session0\<rparr>"
    "active_step session0 = None"
    by (simp_all add: example_defs)
  have 3: "the_client step_world = Some \<lparr>session = Some session1\<rparr>"
    "active_step session1 = Some 0" "event_history (steps step_world 0) = []"
    by (simp_all add: example_defs)
  note inst = inactive_calls [where Session_update_session = skip and ?args1.0 = "()"
      and Session_end_session = skip and ?args2.0 = "()" and Session_update_step = skip_flag
      and ?args3.0 = "()" and description = None and result = None and cost_added = None
      and model = None and screenshots = None]
  have a: "end_session skip () idle_world = (None, print
      ''[Lucidic] Warning: end_session called when session not initialized. Please call lai.init() first.'' idle_world)"
    using inst [OF 1(1)] 1(2) by simp
  have b: "end_step skip_flag () session_world =
     (Some (InvalidOperationError ''No active step to end''), session_world)"
    using inst [OF 2(1)] 2(2) by simp
  have c: "end_event None None None None None step_world =
     (Some (InvalidOperationError ''No events exist in the current step''), step_world)"
    using inst [OF 3(1)] 3(2) 3(3) by simp
  show ?thesis using a b c by simp
qed

text \<open>
  C4. With a Session active, \<open>update_previous_step\<close> raises \<open>InvalidOperationError\<close> for
  every index \<open>\<ge> 0\<close> and for every index whose absolute value exceeds the length of
  \<open>step_history\<close>, leaving the state unchanged, and index \<open>-1\<close> resolves to the last item
  of a non-empty history: the call is the \<open>update_step\<close> of that Step (or the
  empty-slot warning). With an active Step, \<open>update_previous_event\<close> does the same on the
  Step's \<open>event_history\<close>, where index \<open>-1\<close> updates the last Event.
\<close>

theorem update_previous_index:
  fixes s :: "'c world"
  assumes "the_client s = Some c" and "session c = Some sess"
  shows "(0 \<le> index \<or> int (length (step_history sess)) < \<bar>index\<bar> \<longrightarrow>
            (\<exists>m. update_previous_step Step_update_step index args s = (Some (InvalidOperationError m), s)))
     \<and> (step_history sess \<noteq> [] \<longrightarrow>
            update_previous_step Step_update_step (- 1) args s =
              (case last (step_history sess) of
                 None \<Rightarrow> (None, print ''[Lucidic] Warning: update_previous_step called on an empty step. Please check your index.'' s)
               | Some r \<Rightarrow> Step_update_step r args s))
     \<and> (\<forall>r. active_step sess = Some r \<longrightarrow>
          (0 \<le> index \<or> int (length (event_history (steps s r))) < \<bar>index\<bar> \<longrightarrow>
            (\<exists>m. update_previous_event index description result cost_added model screenshots s =
                    (Some (InvalidOperationError m), s)))
        \<and> (event_history (steps s r) \<noteq> [] \<longrightarrow>
            update_previous_event (- 1) description result cost_added model screenshots s =
              (None, event_update (last (event_history (steps s r)))
                       (event_locals description result cost_added model screenshots) s)))"
  using assms
  by (auto simp: update_previous_step_def update_previous_event_def Client_def neg_index_last)

text \<open>
  C4, at concrete inputs: a history of one Step and a history of one Event, with the
  indices \<open>0\<close>, \<open>-2\<close> and \<open>-1\<close>.
\<close>

theorem update_previous_index_witness:
  "fst (update_previous_step skip_step 0 () event_world) \<noteq> None \<and>
   fst (update_previous_step skip_step (- 2) () event_world) \<noteq> None \<and>
   update_previous_step skip_step (- 1) () event_world = skip_step 0 () event_world \<and>
   fst (update_previous_event 0 None (Some ''r'') None None None event_world) \<noteq> None \<and>
   fst (update_previous_event (- 2) None (Some ''r'') None None None event_world) \<noteq> None \<and>
   update_previous_event (- 1) None (Some ''r'') None None None event_world =
     (None, event_update 0 (event_locals None (Some ''r'') None None None) event_world)"
proof -
  have h: "the_client event_world = Some \<lparr>session = Some session1\<rparr>"
    "session \<lparr>session = Some session1\<rparr> = Some session1"
    "step_history session1 = [Some 0]" "active_step session1 = Some 0"
    "event_history (steps event_world 0) = [0]"
    by (simp_all add: example_defs)
  show ?thesis
    using update_previous_index [OF h(1) h(2), where index = 0 and Step_update_step = skip_step
        and args = "()" and description = None and result = "Some ''r''" and cost_added = None
        and model = None and screenshots = None]
      update_previous_index [OF h(1) h(2), where index = "- 2" and Step_update_step = skip_step
        and args = "()" and description = None and result = "Some ''r''" and cost_added = None
        and model = None and screenshots = None]
      h
    by auto
qed

text \<open>
  C6, as stated, fails: while a Session is active, \<open>init\<close> called without an API key, and
  with none in the environment, fails with \<open>APIKeyVerificationError\<close>, not with
  \<open>InvalidOperationError\<close>: the credentials are looked up before the Session check.
\<close>

theorem init_counterexample:
  "fst (init skip_new skip skip no_env () None None None session_world) =
     Some (APIKeyVerificationError ''Make sure to either pass your API key into lai.init() or set the LUCIDIC_API_KEY environment variable.'')"
  by (simp add: init_def no_env_def)

text \<open>
  C6, amended. Every call to \<open>init\<close> while a Session is active fails and leaves the state
  as it was, so no second Session is created and no collaborator is called; the error is
  \<open>InvalidOperationError\<close> whenever an API key and an agent id are passed or found in the
  environment, and \<open>APIKeyVerificationError\<close> otherwise: for the API key when it is
  neither passed nor in the environment, and else for the agent id when that is neither
  passed nor in the environment.
\<close>

theorem init_active_session:
  fixes s :: "'c world"
  assumes "the_client s = Some c" and "session c \<noteq> None"
  shows "\<exists>e. init Client_new set_provider init_session getenv session_args lucidic_api_key agent_id provider s = (Some e, s) \<and>
     ((\<exists>m. e = InvalidOperationError m) \<or> (\<exists>m. e = APIKeyVerificationError m)) \<and>
     ((lucidic_api_key \<noteq> None \<or> getenv ''LUCIDIC_API_KEY'' \<noteq> None) \<and>
      (agent_id \<noteq> None \<or> getenv ''LUCIDIC_AGENT_ID'' \<noteq> None) \<longrightarrow>
        e = InvalidOperationError ''[Lucidic] Session already in progress. Please call lai.reset() first.'') \<and>
     (lucidic_api_key = None \<and> getenv ''LUCIDIC_API_KEY'' = None \<longrightarrow>
        e = APIKeyVerificationError
          ''Make sure to either pass your API key into lai.init() or set the LUCIDIC_API_KEY environment variable.'') \<and>
     ((lucidic_api_key \<noteq> None \<or> getenv ''LUCIDIC_API_KEY'' \<noteq> None) \<and>
      agent_id = None \<and> getenv ''LUCIDIC_AGENT_ID'' = None \<longrightarrow>
        e = APIKeyVerificationError
          ''Lucidic agent ID not specified. Make sure to either pass your agent ID into lai.init() or set the LUCIDIC_AGENT_ID environment variable.'')"
  using assms
  by (auto simp: init_def Client_def split: option.splits)

text \<open>
  C6 amended, at concrete inputs: a second \<open>init\<close> with both credentials passed, one with
  no API key anywhere, and one with an API key but no agent id.
\<close>

theorem init_active_session_witness:
  "the_client session_world = Some \<lparr>session = Some session0\<rparr> \<and>
   init skip_new skip skip no_env () (Some ''key'') (Some ''agent'') (Some OpenAI) session_world =
     (Some (InvalidOperationError ''[Lucidic] Session already in progress. Please call lai.reset() first.''),
      session_world) \<and>
   init skip_new skip skip no_env () None (Some ''agent'') (Some OpenAI) session_world =
     (Some (APIKeyVerificationError
        ''Make sure to either pass your API key into lai.init() or set the LUCIDIC_API_KEY environment variable.''),
      session_world) \<and>
   init skip_new skip skip no_env () (Some ''key'') None (Some OpenAI) session_world =
     (Some (APIKeyVerificationError
        ''Lucidic agent ID not specified. Make sure to either pass your agent ID into lai.init() or set the LUCIDIC_AGENT_ID environment variable.''),
      session_world)"
proof -
  have h: "the_client session_world = Some \<lparr>session = Some session0\<rparr>"
    "session \<lparr>session = Some session0\<rparr> \<noteq> None"
    by (simp_all add: example_defs)
  note t = init_active_session [OF h, where Client_new = skip_new and set_provider = skip
        and init_session = skip and getenv = no_env and session_args = "()"
        and provider = "Some OpenAI"]
  have a: "init skip_new skip skip no_env () (Some ''key'') (Some ''agent'') (Some OpenAI) session_world =
     (Some (InvalidOperationError ''[Lucidic] Session already in progress. Please call lai.reset() first.''),
      session_world)"
    using t [where lucidic_api_key = "Some ''key''" and agent_id = "Some ''agent''"] by auto
  have b: "init skip_new skip skip no_env () None (Some ''agent'') (Some OpenAI) session_world =
     (Some (APIKeyVerificationError
        ''Make sure to either pass your API key into lai.init() or set the LUCIDIC_API_KEY environment variable.''),
      session_world)"
    using t [where lucidic_api_key = None and agent_id = "Some ''agent''"]
    by (auto simp: no_env_def)
  have c: "init skip_new skip skip no_env () (Some ''key'') None (Some OpenAI) session_world =
     (Some (APIKeyVerificationError
        ''Lucidic agent ID not specified. Make sure to either pass your agent ID into lai.init() or set the LUCIDIC_AGENT_ID environment variable.''),
      session_world)"
    using t [where lucidic_api_key = "Some ''key''" and agent_id = None]
    by (auto simp: no_env_def)
  show ?thesis using a b c h(1) by simp
qed

text \<open>
  C7. \<open>end_event\<close> on a Step whose latest Event is already finished raises
  \<open>InvalidOperationError\<close> and changes nothing; in particular a second \<open>end_event\<close> right
  after one that returned normally is rejected. \<open>end_session\<close> after an \<open>end_session\<close>
  that returned normally (the facade still being initialised) only prints a warning: it
  raises nothing and changes nothing else.
\<close>

theorem end_twice:
  fixes s :: "'c world"
  shows "(\<forall>c sess r. the_client s = Some c \<and> session c = Some sess \<and> active_step sess = Some r \<and>
          event_history (steps s r) \<noteq> [] \<and> ev_is_finished (events s (last (event_history (steps s r)))) \<longrightarrow>
          end_event description result cost_added model screenshots s =
            (Some (InvalidOperationError ''Latest event is already finished''), s))
     \<and> (\<forall>c sess s1. the_client s = Some c \<and> session c = Some sess \<and>
          end_event description result cost_added model screenshots s = (None, s1) \<longrightarrow>
          end_event description' result' cost_added' model' screenshots' s1 =
            (Some (InvalidOperationError ''Latest event is already finished''), s1))
     \<and> (\<forall>s1 c1. end_session Session_end_session args s = (None, s1) \<and> the_client s1 = Some c1 \<longrightarrow>
          end_session Session_end_session' args' s1 = (None, print
            ''[Lucidic] Warning: end_session called when session not initialized. Please call lai.init() first.'' s1))"
proof (intro conjI allI impI)
  fix c sess r
  assume "the_client s = Some c \<and> session c = Some sess \<and> active_step sess = Some r \<and>
          event_history (steps s r) \<noteq> [] \<and> ev_is_finished (events s (last (event_history (steps s r))))"
  then show "end_event description result cost_added model screenshots s =
            (Some (InvalidOperationError ''Latest event is already finished''), s)"
    by (simp add: end_event_def Client_def)
next
  fix c sess s1
  assume a: "the_client s = Some c \<and> session c = Some sess \<and>
          end_event description result cost_added model screenshots s = (None, s1)"
  then obtain r where r: "active_step sess = Some r" "event_history (steps s r) \<noteq> []"
      "\<not> ev_is_finished (events s (last (event_history (steps s r))))"
    by (auto simp: end_event_def Client_def Let_def split: option.splits if_splits)
  with a have s1: "s1 = event_update (last (event_history (steps s r)))
      ((event_locals description result cost_added model screenshots)\<lparr>kw_is_finished := Some True\<rparr>) s"
    by (auto simp: end_event_def Client_def)
  show "end_event description' result' cost_added' model' screenshots' s1 =
            (Some (InvalidOperationError ''Latest event is already finished''), s1)"
    using a r unfolding s1
    by (simp add: end_event_def Client_def event_update_simps finished_after_end Let_def)
next
  fix s1 c1
  assume a: "end_session Session_end_session args s = (None, s1) \<and> the_client s1 = Some c1"
  then have "session c1 = None"
    by (auto simp: end_session_def Client_def clear_session_def print_def
        split: option.splits prod.splits)
  with a show "end_session Session_end_session' args' s1 = (None, print
            ''[Lucidic] Warning: end_session called when session not initialized. Please call lai.init() first.'' s1)"
    by (auto simp: end_session_def Client_def)
qed

text \<open>
  C7, at concrete inputs: \<open>end_event\<close> on a finished Event, \<open>end_event\<close> twice on an open
  Event, and \<open>end_session\<close> twice.
\<close>

theorem end_twice_witness:
  "end_event None None None None None finished_event_world =
     (Some (InvalidOperationError ''Latest event is already finished''), finished_event_world) \<and>
   fst (end_event None (Some ''done'') None None None event_world) = None \<and>
   end_event None None None None None
       (snd (end_event None (Some ''done'') None None None event_world)) =
     (Some (InvalidOperationError ''Latest event is already finished''),
      snd (end_event None (Some ''done'') None None None event_world)) \<and>
   fst (end_session skip () session_world) = None \<and>
   end_session skip () (snd (end_session skip () session_world)) =
     (None, print
        ''[Lucidic] Warning: end_session called when session not initialized. Please call lai.init() first.''
        (snd (end_session skip () session_world)))"
proof -
  have f: "the_client finished_event_world = Some \<lparr>session = Some session1\<rparr> \<and>
      session \<lparr>session = Some session1\<rparr> = Some session1 \<and> active_step session1 = Some 0 \<and>
      event_history (steps finished_event_world 0) \<noteq> [] \<and>
      ev_is_finished (events finished_event_world (last (event_history (steps finished_event_world 0))))"
    by (simp add: example_defs)
  have e: "fst (end_event None (Some ''done'') None None None event_world) = None"
    by (simp add: end_event_def Client_def example_defs Let_def new_event_def)
  then have e': "the_client event_world = Some \<lparr>session = Some session1\<rparr> \<and>
      session \<lparr>session = Some session1\<rparr> = Some session1 \<and>
      end_event None (Some ''done'') None None None event_world =
        (None, snd (end_event None (Some ''done'') None None None event_world))"
    by (simp add: example_defs prod_eq_iff)
  have t: "fst (end_session skip () session_world) = None"
    by (simp add: end_session_def Client_def example_defs skip_def)
  then have t': "end_session skip () session_world = (None, snd (end_session skip () session_world)) \<and>
      the_client (snd (end_session skip () session_world)) = Some \<lparr>session = None\<rparr>"
    by (simp add: prod_eq_iff end_session_def Client_def example_defs skip_def clear_session_def)
  have a: "end_event None None None None None finished_event_world =
     (Some (InvalidOperationError ''Latest event is already finished''), finished_event_world)"
    by (rule end_twice [where s = finished_event_world, THEN conjunct1, rule_format, OF f])
  have b: "end_event None None None None None
       (snd (end_event None (Some ''done'') None None None event_world)) =
     (Some (InvalidOperationError ''Latest event is already finished''),
      snd (end_event None (Some ''done'') None None None event_world))"
    by (rule end_twice [where s = event_world, THEN conjunct2, THEN conjunct1, rule_format, OF e'])
  have c: "end_session skip () (snd (end_session skip () session_world)) =
     (None, print
        ''[Lucidic] Warning: end_session called when session not initialized. Please call lai.init() first.''
        (snd (end_session skip () session_world)))"
    by (rule end_twice [where s = session_world, THEN conjunct2, THEN conjunct2, rule_format, OF t'])
  show ?thesis using a b c e t by simp
qed

section \<open>Properties of prompt resolution\<close>

text \<open>
  \<open>find\<close> returns \<open>-1\<close> exactly when the token does not occur, and \<open>replace\<close> leaves a
  text without the token alone and rewrites the first occurrence before going on.
\<close>

lemma find_from_ge: "find_from i s t = - 1 \<or> int i \<le> find_from i s t"
  by (induction i s t rule: find_from.induct) auto

lemma find_from_sublist: "find_from i s t = - 1 \<longleftrightarrow> \<not> sublist t s"
proof (induction i s t rule: find_from.induct)
  case (1 i sub) then show ?case by auto
next
  case (2 i c cs sub)
  then show ?case using find_from_ge[of "Suc i" cs sub] by (auto simp: sublist_Cons_right)
qed

lemma py_find_sublist: "py_find s t = - 1 \<longleftrightarrow> \<not> sublist t s"
  by (simp add: py_find_def find_from_sublist)

lemma substitute_append:
  "substitute t (xs @ ys) = (case substitute t xs of Inl e \<Rightarrow> Inl e | Inr p \<Rightarrow> substitute p ys)"
  by (induction t xs rule: substitute.induct) simp_all

lemma replace_absent: "\<not> sublist old s \<Longrightarrow> py_replace s old new = s"
proof (induction s)
  case Nil
  then show ?case by auto
next
  case (Cons c cs)
  then have "old \<noteq> []" "\<not> prefix old (c # cs)" "\<not> sublist old cs"
    by (auto simp: sublist_Cons_right)
  with Cons show ?case by simp
qed

lemma prefix_short: "prefix xs (ys @ zs) \<Longrightarrow> length xs \<le> length ys \<Longrightarrow> prefix xs ys"
  by (auto simp: prefix_append)

lemma replace_first:
  assumes "old \<noteq> []" "\<not> sublist old (a @ butlast old)"
  shows "py_replace (a @ old @ b) old new = a @ new @ py_replace b old new"
  using assms
proof (induction a)
  case Nil
  then obtain c cs where old: "old = c # cs" by (cases old) auto
  have "py_replace (old @ b) old new = new @ py_replace (drop (length old) (old @ b)) old new"
    unfolding old by simp
  then show ?case by simp
next
  case (Cons x a)
  have np: "\<not> prefix old ((x # a) @ old @ b)"
  proof
    assume p: "prefix old ((x # a) @ old @ b)"
    have h: "butlast old @ [last old] = old"
      using Cons.prems(1) by simp
    have "((x # a) @ butlast old) @ ([last old] @ b) = (x # a) @ (butlast old @ [last old]) @ b"
      by simp
    also have "\<dots> = (x # a) @ old @ b"
      by (simp only: h)
    finally have "prefix old (((x # a) @ butlast old) @ ([last old] @ b))"
      using p by (simp only:)
    then have "prefix old ((x # a) @ butlast old)"
      by (rule prefix_short) simp
    then show False using Cons.prems(2) by (auto dest: prefix_imp_sublist)
  qed
  have "\<not> sublist old (a @ butlast old)"
    using Cons.prems(2) by (auto simp: sublist_Cons_right)
  with Cons.IH Cons.prems(1) have "py_replace (a @ old @ b) old new = a @ new @ py_replace b old new"
    by simp
  with np Cons.prems(1) show ?case by simp
qed

lemma replace_once:
  assumes "\<not> sublist old (a @ butlast old)" "\<not> sublist old b"
  shows "py_replace (a @ old @ b) old new = a @ new @ b"
proof -
  from assms(2) have "old \<noteq> []" by auto
  then show ?thesis using assms by (simp add: replace_first replace_absent)
qed


lemma substitute_error:
  "substitute t vs = Inl e \<Longrightarrow> e = PromptError ''Supplied variable not found in prompt''"
  by (induction t vs rule: substitute.induct) (auto split: if_splits)

lemma substitute_step:
  "substitute p ((key, val) # post) =
     (if sublist (''{{'' @ key @ ''}}'') p
      then substitute (py_replace p (''{{'' @ key @ ''}}'') val) post
      else Inl (PromptError ''Supplied variable not found in prompt''))"
  using py_find_sublist [of p "''{{'' @ key @ ''}}''"] by (simp del: append.simps)

lemma get_prompt_active:
  assumes "the_client s = Some c" and "session c = Some sess"
    and "Client_get_prompt prompt_name cache_ttl label s = (Inr template, s1)"
  shows "get_prompt Client_get_prompt prompt_name variables cache_ttl label s =
     (case (case variables of None \<Rightarrow> Inr template | Some vars \<Rightarrow> substitute template vars) of
        Inl e \<Rightarrow> (Inl e, s1)
      | Inr prompt \<Rightarrow>
          (Inr prompt,
           if unreplaced prompt
           then print ''[Lucidic] Warning: Unreplaced variable(s) left in prompt. Please check your prompt.'' s1
           else s1))"
proof -
  have "(case variables of None \<Rightarrow> Inr template
         | Some vars \<Rightarrow> if vars = [] then Inr template else substitute template vars) =
        (case variables of None \<Rightarrow> Inr template | Some vars \<Rightarrow> substitute template vars)"
    by (auto split: option.splits)
  then show ?thesis
    using assms by (simp add: get_prompt_def Client_def)
qed

text \<open>
  C5, as stated, fails: the token of a supplied key is looked for in the text as it is
  when the key's turn comes, not in the template. With the template \<open>{{a}}\<close> and the
  variables \<open>a = {{b}}\<close>, \<open>b = x\<close>, the token \<open>{{b}}\<close> is absent from the template, yet no
  \<open>PromptError\<close> is raised and the result is \<open>x\<close>.
\<close>

theorem prompt_substitution_counterexample:
  "\<not> sublist ''{{b}}'' ''{{a}}'' \<and>
   fst (get_prompt (fetch_const ''{{a}}'') ''p'' (Some [(''a'', ''{{b}}''), (''b'', ''x'')])
          (Some 300) (Some ''production'') session_world) = Inr ''x''"
proof -
  have "py_find ''{{a}}'' ''{{b}}'' = - 1" by (simp add: py_find_def)
  then have "\<not> sublist ''{{b}}'' ''{{a}}''"
    using py_find_sublist [of "''{{a}}''" "''{{b}}''"] by simp
  moreover have "fst (get_prompt (fetch_const ''{{a}}'') ''p'' (Some [(''a'', ''{{b}}''), (''b'', ''x'')])
          (Some 300) (Some ''production'') session_world) = Inr ''x''"
    by (simp add: get_prompt_def Client_def example_defs fetch_const_def py_find_def)
  ultimately show ?thesis by simp
qed

text \<open>
  C5, amended. With a Session active and the template returned by the backend, the keys
  are processed in the order of the mapping, each against the current text (the template
  with the earlier keys substituted): if the key's token \<open>{{key}}\<close> is absent from the
  current text, \<open>PromptError\<close> is raised; otherwise its occurrences are replaced by the
  value and processing goes on. For a single key whose token occurs exactly once, the
  result is the template with the token replaced by the value; \<open>Hello {{name}}\<close> with
  \<open>name = Ann\<close> yields \<open>Hello Ann\<close>. The only exception that the substitution raises is
  \<open>PromptError\<close>: an unresolved \<open>{{...}}\<close> pair in the result adds a printed warning and
  nothing else.
\<close>

theorem prompt_substitution:
  fixes s :: "'c world"
  assumes "the_client s = Some c" and "session c = Some sess"
    and "Client_get_prompt prompt_name cache_ttl label s = (Inr template, s1)"
  shows
   "(\<forall>pre key val post p.
        substitute template pre = Inr p \<and> \<not> sublist (''{{'' @ key @ ''}}'') p \<longrightarrow>
        get_prompt Client_get_prompt prompt_name (Some (pre @ (key, val) # post)) cache_ttl label s =
          (Inl (PromptError ''Supplied variable not found in prompt''), s1))
    \<and> (\<forall>pre key val post p.
        substitute template pre = Inr p \<and> sublist (''{{'' @ key @ ''}}'') p \<longrightarrow>
        fst (get_prompt Client_get_prompt prompt_name (Some (pre @ (key, val) # post)) cache_ttl label s) =
          substitute (py_replace p (''{{'' @ key @ ''}}'') val) post)
    \<and> (\<forall>key val a b.
        template = a @ (''{{'' @ key @ ''}}'') @ b \<and>
        \<not> sublist (''{{'' @ key @ ''}}'') (a @ butlast (''{{'' @ key @ ''}}'')) \<and>
        \<not> sublist (''{{'' @ key @ ''}}'') b \<longrightarrow>
        fst (get_prompt Client_get_prompt prompt_name (Some [(key, val)]) cache_ttl label s) =
          Inr (a @ val @ b))
    \<and> (template = ''Hello {{name}}'' \<longrightarrow>
        fst (get_prompt Client_get_prompt prompt_name (Some [(''name'', ''Ann'')]) cache_ttl label s) =
          Inr ''Hello Ann'')
    \<and> (\<forall>variables.
        (\<exists>prompt. get_prompt Client_get_prompt prompt_name variables cache_ttl label s =
           (Inr prompt,
            if unreplaced prompt
            then print ''[Lucidic] Warning: Unreplaced variable(s) left in prompt. Please check your prompt.'' s1
            else s1))
        \<or> get_prompt Client_get_prompt prompt_name variables cache_ttl label s =
             (Inl (PromptError ''Supplied variable not found in prompt''), s1))"
proof -
  note gp = get_prompt_active [where Client_get_prompt = Client_get_prompt
      and prompt_name = prompt_name and cache_ttl = cache_ttl and label = label
      and s = s and ?s1.0 = s1 and template = template, OF assms]
  show ?thesis
proof (intro conjI allI impI)
  fix pre key val post p
  assume "substitute template pre = Inr p \<and> \<not> sublist (''{{'' @ key @ ''}}'') p"
  then have "substitute template (pre @ (key, val) # post) =
      Inl (PromptError ''Supplied variable not found in prompt'')"
    by (simp only: substitute_append substitute_step sum.case if_False)
  then show "get_prompt Client_get_prompt prompt_name (Some (pre @ (key, val) # post)) cache_ttl label s =
          (Inl (PromptError ''Supplied variable not found in prompt''), s1)"
    by (simp only: gp option.case sum.case)
next
  fix pre key val post p
  assume "substitute template pre = Inr p \<and> sublist (''{{'' @ key @ ''}}'') p"
  then have "substitute template (pre @ (key, val) # post) =
      substitute (py_replace p (''{{'' @ key @ ''}}'') val) post"
    by (simp only: substitute_append substitute_step sum.case if_True)
  then show "fst (get_prompt Client_get_prompt prompt_name (Some (pre @ (key, val) # post)) cache_ttl label s) =
          substitute (py_replace p (''{{'' @ key @ ''}}'') val) post"
    by (simp only: gp option.case split: sum.splits) simp
next
  fix key val a b
  let ?tok = "''{{'' @ key @ ''}}''"
  assume a: "template = a @ ?tok @ b \<and> \<not> sublist ?tok (a @ butlast ?tok) \<and> \<not> sublist ?tok b"
  then have "sublist ?tok template" by (simp only: sublist_appendI)
  then have "substitute template [(key, val)] = Inr (py_replace template ?tok val)"
    by (simp only: substitute_step if_True substitute.simps)
  also have "py_replace template ?tok val = a @ val @ b"
  proof -
    from a have t: "template = a @ ?tok @ b" and n1: "\<not> sublist ?tok (a @ butlast ?tok)"
      and n2: "\<not> sublist ?tok b" by blast+
    show ?thesis unfolding t using n1 n2 by (rule replace_once)
  qed
  finally show "fst (get_prompt Client_get_prompt prompt_name (Some [(key, val)]) cache_ttl label s) =
          Inr (a @ val @ b)"
    by (simp only: gp option.case sum.case fst_conv)
next
  assume "template = ''Hello {{name}}''"
  then have "substitute template [(''name'', ''Ann'')] = Inr ''Hello Ann''"
    by (simp add: py_find_def)
  then show "fst (get_prompt Client_get_prompt prompt_name (Some [(''name'', ''Ann'')]) cache_ttl label s) =
          Inr ''Hello Ann''"
    by (simp only: gp option.case sum.case fst_conv)
next
  fix variables
  let ?r = "case variables of None \<Rightarrow> Inr template | Some vars \<Rightarrow> substitute template vars"
  show "(\<exists>prompt. get_prompt Client_get_prompt prompt_name variables cache_ttl label s =
           (Inr prompt,
            if unreplaced prompt
            then print ''[Lucidic] Warning: Unreplaced variable(s) left in prompt. Please check your prompt.'' s1
            else s1))
        \<or> get_prompt Client_get_prompt prompt_name variables cache_ttl label s =
             (Inl (PromptError ''Supplied variable not found in prompt''), s1)"
  proof (cases ?r)
    case (Inl e)
    then have "e = PromptError ''Supplied variable not found in prompt''"
      by (cases variables) (auto dest: substitute_error)
    with Inl show ?thesis by (simp only: gp sum.case) blast
  next
    case (Inr prompt)
    then show ?thesis by (simp only: gp sum.case) blast
  qed
qed
qed

text \<open>
  C5 amended, at concrete inputs: the template \<open>Hello {{name}}\<close> with a key \<open>city\<close>, with
  \<open>name = Ann\<close> and with \<open>name = Bob\<close>.
\<close>

theorem prompt_substitution_witness:
  "get_prompt (fetch_const ''Hello {{name}}'') ''greeting'' (Some [(''city'', ''X'')])
       (Some 300) (Some ''production'') session_world =
     (Inl (PromptError ''Supplied variable not found in prompt''), session_world) \<and>
   fst (get_prompt (fetch_const ''Hello {{name}}'') ''greeting'' (Some [(''name'', ''Ann'')])
       (Some 300) (Some ''production'') session_world) = Inr ''Hello Ann'' \<and>
   fst (get_prompt (fetch_const ''Hello {{name}}'') ''greeting'' (Some [(''name'', ''Bob'')])
       (Some 300) (Some ''production'') session_world) = Inr ''Hello Bob''"
proof -
  have h: "the_client session_world = Some \<lparr>session = Some session0\<rparr>"
    "session \<lparr>session = Some session0\<rparr> = Some session0"
    "fetch_const ''Hello {{name}}'' ''greeting'' (Some 300) (Some ''production'') session_world =
       (Inr ''Hello {{name}}'', session_world)"
    by (simp_all add: example_defs fetch_const_def)
  note t = prompt_substitution [where Client_get_prompt = "fetch_const ''Hello {{name}}''"
      and prompt_name = "''greeting''" and cache_ttl = "Some 300" and label = "Some ''production''"
      and s = session_world and ?s1.0 = session_world and template = "''Hello {{name}}''", OF h]
  have "py_find ''Hello {{name}}'' ''{{city}}'' = - 1" "py_find ''Hello {{name}'' ''{{name}}'' = - 1"
    by (simp_all add: py_find_def)
  then have n: "\<not> sublist ''{{city}}'' ''Hello {{name}}''" "\<not> sublist ''{{name}}'' ''Hello {{name}''"
    using py_find_sublist [of "''Hello {{name}}''" "''{{city}}''"]
      py_find_sublist [of "''Hello {{name}''" "''{{name}}''"]
    by simp_all
  have c1: "substitute ''Hello {{name}}'' [] = Inr ''Hello {{name}}'' \<and>
      \<not> sublist (''{{'' @ ''city'' @ ''}}'') ''Hello {{name}}''"
    using n(1) by simp
  have c3: "''Hello {{name}}'' = ''Hello '' @ (''{{'' @ ''name'' @ ''}}'') @ [] \<and>
      \<not> sublist (''{{'' @ ''name'' @ ''}}'') (''Hello '' @ butlast (''{{'' @ ''name'' @ ''}}'')) \<and>
      \<not> sublist (''{{'' @ ''name'' @ ''}}'') []"
    using n(2) by simp
  have 1: "get_prompt (fetch_const ''Hello {{name}}'') ''greeting'' (Some ([] @ (''city'', ''X'') # []))
       (Some 300) (Some ''production'') session_world =
     (Inl (PromptError ''Supplied variable not found in prompt''), session_world)"
    by (rule t [THEN conjunct1, rule_format, OF c1])
  have 3: "fst (get_prompt (fetch_const ''Hello {{name}}'') ''greeting'' (Some [(''name'', ''Bob'')])
       (Some 300) (Some ''production'') session_world) = Inr (''Hello '' @ ''Bob'' @ [])"
    by (rule t [THEN conjunct2, THEN conjunct2, THEN conjunct1, rule_format, OF c3])
  have 4: "fst (get_prompt (fetch_const ''Hello {{name}}'') ''greeting'' (Some [(''name'', ''Ann'')])
       (Some 300) (Some ''production'') session_world) = Inr ''Hello Ann''"
    by (rule t [THEN conjunct2, THEN conjunct2, THEN conjunct2, THEN conjunct1, rule_format, OF refl])
  show ?thesis using 1 3 4 by simp
qed

section \<open>Properties of the callback handler\<close>

text \<open>
  What the callbacks do in the regular cases. With an active, unfinished Step,
  \<open>on_llm_start\<close> creates one open Event and records it under the run identifier; if the
  first generation of the response is a \<open>ChatGeneration\<close>, the following \<open>on_llm_end\<close>
  finishes exactly that Event with success, removes the run identifier from both maps,
  and any later \<open>on_llm_end\<close> for it only prints; an \<open>on_llm_end\<close> for a run identifier
  without an Event only prints, provided it can read the response. If the first
  generation is a plain \<open>Generation\<close>, \<open>on_llm_end\<close> raises \<open>AttributeError\<close> to the host
  and the Event stays open. Without a Session or Step, \<open>on_llm_start\<close> creates nothing
  and prints, and so does \<open>on_chat_model_start\<close> when its payload can be read.
\<close>

lemma session_and_active_step_print [simp]:
  "session_and_active_step (print m s) = session_and_active_step s"
  by (simp add: session_and_active_step_def Client_def print_def)

lemma print_fields [simp]:
  "the_client (print m s) = the_client s" "steps (print m s) = steps s"
  "events (print m s) = events s" "next_event (print m s) = next_event s"
  by (simp_all add: print_def)

lemma active_step_found:
  "the_client s = Some c \<Longrightarrow> session c = Some sess \<Longrightarrow> active_step sess = Some r \<Longrightarrow>
   session_and_active_step s = Inr (Some r)"
  by (simp add: session_and_active_step_def Client_def)

lemma on_llm_start_active:
  assumes "the_client s = Some c" "session c = Some sess" "active_step sess = Some r"
    "\<not> st_is_finished (steps s r)"
  shows "\<exists>s' e. on_llm_start self serialized prompts run_id invocation_params s =
      (None, self\<lparr>run_to_model := (run_to_model self)(run_id \<mapsto> get_model_name serialized invocation_params),
                  run_to_event := (run_to_event self)(run_id \<mapsto> next_event s)\<rparr>, s') \<and>
      the_client s' = the_client s \<and>
      events s' = (events s)(next_event s := e) \<and> \<not> ev_is_finished e \<and> ev_is_successful e = None \<and>
      ev_cost_added e = None \<and> ev_result e = None \<and>
      next_event s' = Suc (next_event s) \<and>
      steps s' = (steps s)(r := (steps s r)\<lparr>event_history := event_history (steps s r) @ [next_event s]\<rparr>)"
proof -
  obtain texts imgs where p: "llm_prompts prompts [] [] = (texts, imgs)"
    by (cases "llm_prompts prompts [] []")
  let ?e = "Event_update_event
      (no_kwargs\<lparr>kw_description := Some (PList texts), kw_screenshots := Some imgs\<rparr>)
      (new_event :: 'a event)"
  let ?p = "print ''[Lucidic] Starting LLM call in Langchain Handler, creating event...'' s"
  let ?s' = "?p\<lparr>steps := (steps s)(r := (steps s r)\<lparr>event_history :=
                 event_history (steps s r) @ [next_event s]\<rparr>),
               events := (events s)(next_event s := ?e),
               next_event := Suc (next_event s)\<rparr>"
  have "on_llm_start self serialized prompts run_id invocation_params s =
      (None, self\<lparr>run_to_model := (run_to_model self)(run_id \<mapsto> get_model_name serialized invocation_params),
                  run_to_event := (run_to_event self)(run_id \<mapsto> next_event s)\<rparr>, ?s')"
    using assms p
    by (simp add: on_llm_start_def active_step_found Step_create_event_def Let_def)
  moreover have "\<not> ev_is_finished ?e" "ev_is_successful ?e = None" "ev_cost_added ?e = None"
    "ev_result ?e = None"
    by (simp_all add: Event_update_event_def new_event_def no_kwargs_def upd_def)
  moreover have "the_client ?s' = the_client s" "events ?s' = (events s)(next_event s := ?e)"
    "next_event ?s' = Suc (next_event s)"
    "steps ?s' = (steps s)(r := (steps s r)\<lparr>event_history := event_history (steps s r) @ [next_event s]\<rparr>)"
    by simp_all
  ultimately show ?thesis by blast
qed

lemma on_llm_end_unseen:
  assumes "the_client s = Some c" "session c = Some sess" "active_step sess = Some r"
    "run_to_event self run_id = None" "first_message generations = Inr message"
  shows "on_llm_end calculate_cost self generations run_id s =
    (None, self\<lparr>run_to_model := (run_to_model self)(run_id := None)\<rparr>,
     print ''[Lucidic] No event found''
       (print ''[Lucidic] Ending LLM call in Langchain Handler, ending event...'' s))"
  using assms by (simp add: on_llm_end_def active_step_found Let_def)

lemma on_llm_end_plain_generation:
  "on_llm_end calculate_cost self ((Generation t # gs) # gss) run_id s =
    (Some (AttributeError ''Generation object has no attribute message''), self,
     print ''[Lucidic] Ending LLM call in Langchain Handler, ending event...'' s)"
  by (simp add: on_llm_end_def first_message_def Let_def)

lemma llm_start_then_end_terminates:
  assumes "the_client s = Some c" "session c = Some sess" "active_step sess = Some r"
    "\<not> st_is_finished (steps s r)"
  shows "\<exists>self' s' e. llm_start_then_end calculate_cost self serialized prompts run_id invocation_params
        ((ChatGeneration g # gs) # gss) s = (None, self', s') \<and>
      run_to_event self' run_id = None \<and> run_to_model self' run_id = None \<and>
      events s' = (events s)(next_event s := e) \<and>
      ev_is_finished e \<and> ev_is_successful e = Some True \<and>
      (\<forall>generations message. first_message generations = Inr message \<longrightarrow>
         on_llm_end calculate_cost self' generations run_id s' =
         (None, self', print ''[Lucidic] No event found''
            (print ''[Lucidic] Ending LLM call in Langchain Handler, ending event...'' s')))"
proof -
  from on_llm_start_active [OF assms, of self serialized prompts run_id invocation_params]
  obtain s1 e1 where
    st: "on_llm_start self serialized prompts run_id invocation_params s =
      (None, self\<lparr>run_to_model := (run_to_model self)(run_id \<mapsto> get_model_name serialized invocation_params),
                  run_to_event := (run_to_event self)(run_id \<mapsto> next_event s)\<rparr>, s1)"
    and c1: "the_client s1 = the_client s"
    and ev: "events s1 = (events s)(next_event s := e1)" "\<not> ev_is_finished e1"
    by blast
  let ?self1 = "self\<lparr>run_to_model := (run_to_model self)(run_id \<mapsto> get_model_name serialized invocation_params),
                  run_to_event := (run_to_event self)(run_id \<mapsto> next_event s)\<rparr>"
  let ?kw = "no_kwargs\<lparr>kw_is_finished := Some True, kw_is_successful := Some True,
     kw_cost_added := Some (calculate_cost (get_model_name serialized invocation_params) (usage_metadata g)),
     kw_model := Some (get_model_name serialized invocation_params),
     kw_result := Some (pretty_repr g)\<rparr>"
  let ?p1 = "print ''[Lucidic] Ending LLM call in Langchain Handler, ending event...'' s1"
  let ?self2 = "?self1\<lparr>run_to_event := (run_to_event ?self1)(run_id := None),
                        run_to_model := (run_to_model ?self1)(run_id := None)\<rparr>"
  have a: "session_and_active_step s1 = Inr (Some r)"
    using assms c1 by (simp add: session_and_active_step_def Client_def)
  have en: "on_llm_end calculate_cost ?self1 ((ChatGeneration g # gs) # gss) run_id s1 =
      (None, ?self2, event_update (next_event s) ?kw ?p1)"
    using a ev by (simp add: on_llm_end_def first_message_def Let_def)
  let ?s2 = "event_update (next_event s) ?kw ?p1"
  let ?e2 = "Event_update_event ?kw e1"
  have "events ?s2 = (events s)(next_event s := ?e2)"
    using ev by (simp add: event_update_def)
  moreover have "ev_is_finished ?e2" "ev_is_successful ?e2 = Some True"
    by (simp_all add: Event_update_event_def upd_def)
  moreover have "llm_start_then_end calculate_cost self serialized prompts run_id invocation_params
        ((ChatGeneration g # gs) # gss) s = (None, ?self2, ?s2)"
    by (simp add: llm_start_then_end_def st en)
  moreover have "run_to_event ?self2 run_id = None" "run_to_model ?self2 run_id = None"
    by simp_all
  moreover have "on_llm_end calculate_cost ?self2 generations run_id ?s2 =
         (None, ?self2, print ''[Lucidic] No event found''
            (print ''[Lucidic] Ending LLM call in Langchain Handler, ending event...'' ?s2))"
    if "first_message generations = Inr message" for generations message
  proof -
    have "the_client ?s2 = Some c" using c1 assms(1) by (simp add: event_update_def)
    from on_llm_end_unseen [OF this assms(2,3) _ that, of ?self2 run_id calculate_cost]
    show ?thesis by simp
  qed
  ultimately show ?thesis by blast
qed

lemma llm_start_then_end_plain_generation:
  assumes "the_client s = Some c" "session c = Some sess" "active_step sess = Some r"
    "\<not> st_is_finished (steps s r)"
  shows "\<exists>self' s'. llm_start_then_end calculate_cost self serialized prompts run_id invocation_params
        ((Generation t # gs) # gss) s =
        (Some (AttributeError ''Generation object has no attribute message''), self', s') \<and>
      run_to_event self' run_id = Some (next_event s) \<and>
      \<not> ev_is_finished (events s' (next_event s))"
proof -
  from on_llm_start_active [OF assms, of self serialized prompts run_id invocation_params]
  obtain s1 e1 where
    st: "on_llm_start self serialized prompts run_id invocation_params s =
      (None, self\<lparr>run_to_model := (run_to_model self)(run_id \<mapsto> get_model_name serialized invocation_params),
                  run_to_event := (run_to_event self)(run_id \<mapsto> next_event s)\<rparr>, s1)"
    and ev: "events s1 = (events s)(next_event s := e1)" "\<not> ev_is_finished e1"
    by blast
  show ?thesis
    using ev by (simp add: llm_start_then_end_def st on_llm_end_plain_generation)
qed

lemma on_llm_start_inactive:
  assumes "the_client s = Some c"
    and "session c = None \<or> (\<exists>sess. session c = Some sess \<and> active_step sess = None)"
  shows "on_llm_start self serialized prompts run_id invocation_params s =
    (None, self\<lparr>run_to_model := (run_to_model self)(run_id \<mapsto> get_model_name serialized invocation_params)\<rparr>,
     print ''[Lucidic] Cannot create event - no active session or step''
       (print ''[Lucidic] Starting LLM call in Langchain Handler, creating event...'' s))"
proof -
  have "session_and_active_step s = Inr None"
    using assms by (auto simp: session_and_active_step_def Client_def)
  then show ?thesis
    by (simp add: on_llm_start_def Let_def split: prod.splits)
qed

lemma on_chat_model_start_inactive:
  assumes "the_client s = Some c"
    and "session c = None \<or> (\<exists>sess. session c = Some sess \<and> active_step sess = None)"
    and "(case messages of [] \<Rightarrow> Inr ([], []) | msgs # _ \<Rightarrow> chat_messages msgs ([], [])) = Inr acc"
  shows "on_chat_model_start self serialized messages run_id invocation_params s =
    (None, self\<lparr>run_to_model := (run_to_model self)(run_id \<mapsto> get_model_name serialized invocation_params)\<rparr>,
     print ''[Lucidic] Cannot create event - no active session or step''
       (print ''[Lucidic] Starting LLM call in Langchain Handler, creating event...'' s))"
proof -
  have "session_and_active_step s = Inr None"
    using assms by (auto simp: session_and_active_step_def Client_def)
  then show ?thesis
    using assms(3) by (simp add: on_chat_model_start_def Let_def split: prod.splits)
qed

lemmas handler_defs = llm_start_then_end_def llm_start_then_error_def on_llm_start_def
  on_llm_end_def on_llm_error_def on_chat_model_start_def session_and_active_step_def
  Client_def Step_create_event_def event_update_def Event_update_event_def new_event_def
  no_kwargs_def upd_def print_def get_model_name_def format_exc_def Let_def handler0_def
  unit_cost_def one_generation_def no_generations_def image_block_messages_def py_get_def
  first_message_def

lemma llm_start_then_error_general:
  assumes "the_client s = Some c" "session c = Some sess" "active_step sess = Some r"
    "\<not> st_is_finished (steps s r)"
  shows "\<exists>self' s' e. llm_start_then_error self serialized prompts run_id invocation_params s =
        (None, self', s') \<and>
      run_to_event self' run_id = None \<and> run_to_model self' run_id = None \<and>
      events s' = (events s)(next_event s := e) \<and>
      ev_is_finished e \<and> ev_is_successful e = None \<and> ev_cost_added e = None \<and> ev_result e = None"
proof -
  from on_llm_start_active [OF assms, of self serialized prompts run_id invocation_params]
  obtain s1 e1 where
    st: "on_llm_start self serialized prompts run_id invocation_params s =
      (None, self\<lparr>run_to_model := (run_to_model self)(run_id \<mapsto> get_model_name serialized invocation_params),
                  run_to_event := (run_to_event self)(run_id \<mapsto> next_event s)\<rparr>, s1)"
    and c1: "the_client s1 = the_client s"
    and ev: "events s1 = (events s)(next_event s := e1)" "\<not> ev_is_finished e1"
      "ev_is_successful e1 = None" "ev_cost_added e1 = None" "ev_result e1 = None"
    by blast
  let ?self1 = "self\<lparr>run_to_model := (run_to_model self)(run_id \<mapsto> get_model_name serialized invocation_params),
                  run_to_event := (run_to_event self)(run_id \<mapsto> next_event s)\<rparr>"
  let ?kw = "no_kwargs\<lparr>kw_is_finished := Some True,
     kw_model := Some (get_model_name serialized invocation_params)\<rparr>"
  let ?p1 = "print ''[Lucidic] Handling LLM error in Langchain Handler, ending event...'' s1"
  let ?self2 = "?self1\<lparr>run_to_event := (run_to_event ?self1)(run_id := None),
                        run_to_model := (run_to_model ?self1)(run_id := None)\<rparr>"
  let ?s2 = "print ''[Lucidic] Ended event with error'' (event_update (next_event s) ?kw ?p1)"
  let ?e2 = "Event_update_event ?kw e1"
  have a: "session_and_active_step s1 = Inr (Some r)"
    using assms c1 by (simp add: session_and_active_step_def Client_def)
  have en: "on_llm_error ?self1 run_id s1 = (None, ?self2, ?s2)"
    using a ev by (simp add: on_llm_error_def Let_def)
  have "events ?s2 = (events s)(next_event s := ?e2)"
    using ev by (simp add: event_update_def)
  moreover have "ev_is_finished ?e2" "ev_is_successful ?e2 = None" "ev_cost_added ?e2 = None"
    "ev_result ?e2 = None"
    using ev by (simp_all add: Event_update_event_def upd_def no_kwargs_def)
  moreover have "llm_start_then_error self serialized prompts run_id invocation_params s =
      (None, ?self2, ?s2)"
    by (simp add: llm_start_then_error_def st en)
  moreover have "run_to_event ?self2 run_id = None" "run_to_model ?self2 run_id = None"
    by simp_all
  ultimately show ?thesis by blast
qed

text \<open>
  C1, at the input where the code departs from it: \<open>on_llm_start\<close> for run \<open>R1\<close> in an
  active Step, then \<open>on_llm_end\<close> for \<open>R1\<close> with a response that has no generation. The
  local variable \<open>message\<close> is unbound, the \<open>UnboundLocalError\<close> is caught and printed,
  and so the Event is left unfinished, without a success flag, and \<open>R1\<close> stays in
  \<open>run_to_event\<close>.
\<close>

theorem on_llm_end_without_generation:
  "fst (llm_start_then_end unit_cost handler0 None [PStr ''hi''] ''R1'' None no_generations step_world) = None \<and>
   run_to_event (fst (snd (llm_start_then_end unit_cost handler0 None [PStr ''hi''] ''R1'' None
       no_generations step_world))) ''R1'' = Some 0 \<and>
   \<not> ev_is_finished (events (snd (snd (llm_start_then_end unit_cost handler0 None [PStr ''hi''] ''R1'' None
       no_generations step_world))) 0) \<and>
   ev_is_successful (events (snd (snd (llm_start_then_end unit_cost handler0 None [PStr ''hi''] ''R1'' None
       no_generations step_world))) 0) = None"
  by (simp add: handler_defs example_defs)

text \<open>
  C2, at the input where the code departs from it: \<open>on_llm_start\<close> for run \<open>R1\<close> in an
  active Step, then \<open>on_llm_error\<close> for \<open>R1\<close>. The Event is finished and \<open>R1\<close> is removed,
  but \<open>update_event\<close> is called with \<open>is_finished\<close> and \<open>model\<close> only, so the success flag
  is left unset; it is not set to false.
\<close>

theorem on_llm_error_success_unset:
  "fst (llm_start_then_error handler0 None [PStr ''hi''] ''R1'' None step_world) = None \<and>
   run_to_event (fst (snd (llm_start_then_error handler0 None [PStr ''hi''] ''R1'' None step_world))) ''R1'' = None \<and>
   ev_is_finished (events (snd (snd (llm_start_then_error handler0 None [PStr ''hi''] ''R1'' None step_world))) 0) \<and>
   ev_is_successful (events (snd (snd (llm_start_then_error handler0 None [PStr ''hi''] ''R1'' None step_world))) 0) = None \<and>
   ev_is_successful (events (snd (snd (llm_start_then_error handler0 None [PStr ''hi''] ''R1'' None step_world))) 0)
     \<noteq> Some False"
  by (simp add: handler_defs example_defs)

text \<open>
  C8, at the input where the code departs from it: \<open>on_chat_model_start\<close> without a
  Session, for a message with an image block whose \<open>image_url\<close> is a plain string. The
  payload is read before the Session check and outside any \<open>try\<close>: \<open>.get\<close> on the string
  raises \<open>AttributeError\<close>, which escapes to the host framework.
\<close>

theorem on_chat_model_start_raises:
  "fst (on_chat_model_start handler0 None image_block_messages ''R1'' None idle_world) =
     Some (AttributeError ''object has no attribute get'')"
  by (simp add: handler_defs example_defs)

section \<open>Properties of attachment\<close>

lemma ac_NoAttr: "callbacks (objects g x) = NoAttr \<Longrightarrow> attach_callbacks self x w g = g"
  by (simp add: attach_callbacks_def)

lemma ac_AttrNone: "callbacks (objects g x) = AttrNone \<Longrightarrow>
  attach_callbacks self x w g = say (''[Lucidic] Successfully attached to '' @ w) (append_attach self x (next_list g) (snd (new_list g)))"
  by (simp add: attach_callbacks_def new_list_def append_attach_def)

lemma ac_empty: "callbacks (objects g x) = AttrList l \<Longrightarrow> lists g l = [] \<Longrightarrow>
  attach_callbacks self x w g = say (''[Lucidic] Successfully attached to '' @ w) (append_attach self x (next_list g) (snd (new_list g)))"
  by (simp add: attach_callbacks_def new_list_def append_attach_def)

lemma ac_append: "callbacks (objects g x) = AttrList l \<Longrightarrow> lists g l \<noteq> [] \<Longrightarrow> \<not> list_ex is_lucidic (lists g l) \<Longrightarrow>
  attach_callbacks self x w g = say (''[Lucidic] Successfully attached to '' @ w) (append_attach self x l g)"
  by (simp add: attach_callbacks_def append_attach_def)

lemma ac_already: "callbacks (objects g x) = AttrList l \<Longrightarrow> list_ex is_lucidic (lists g l) \<Longrightarrow>
  attach_callbacks self x w g = say (''[Lucidic] Already attached to '' @ w) g"
  by (auto simp add: attach_callbacks_def)

lemma ac_cases:
  obtains "attach_callbacks self x w g = g" "callbacks (objects g x) = NoAttr"
  | "attach_callbacks self x w g = say (''[Lucidic] Successfully attached to '' @ w)
        (append_attach self x (next_list g) (snd (new_list g)))"
    "callbacks (objects g x) \<noteq> NoAttr" "\<not> attached g x"
  | l where "attach_callbacks self x w g = say (''[Lucidic] Successfully attached to '' @ w) (append_attach self x l g)"
    "callbacks (objects g x) = AttrList l" "\<not> list_ex is_lucidic (lists g l)"
  | "attach_callbacks self x w g = say (''[Lucidic] Already attached to '' @ w) g" "attached g x"
proof (cases "callbacks (objects g x)")
  case NoAttr then show ?thesis using that(1) ac_NoAttr by simp
next
  case AttrNone then show ?thesis using that(2) ac_AttrNone by (simp add: attached_def)
next
  case (AttrList l)
  show ?thesis
  proof (cases "list_ex is_lucidic (lists g l)")
    case True then show ?thesis using that(4) ac_already AttrList by (simp add: attached_def)
  next
    case False
    show ?thesis
    proof (cases "lists g l = []")
      case True then show ?thesis using that(2) ac_empty AttrList False by (simp add: attached_def)
    next
      case False': False then show ?thesis using that(3) ac_append AttrList False by simp
    qed
  qed
qed


lemma say_simps [simp]:
  "objects (say m g) = objects g" "lists (say m g) = lists g" "next_list (say m g) = next_list g"
  by (simp_all add: say_def)

lemma new_list_simps [simp]:
  "objects (snd (new_list g)) = objects g"
  "lists (snd (new_list g)) = (lists g)(next_list g := [])"
  "next_list (snd (new_list g)) = Suc (next_list g)"
  by (simp_all add: new_list_def)

lemma append_attach_simps [simp]:
  "objects (append_attach self x l g) = (objects g)(x := (objects g x)\<lparr>callbacks := AttrList l\<rparr>)"
  "lists (append_attach self x l g) = (lists g)(l := lists g l @ [LucidicLangchainHandler self])"
  "next_list (append_attach self x l g) = next_list g"
  by (simp_all add: append_attach_def)

lemma ac_members [simp]:
  "members (objects (attach_callbacks self x w g) y) = members (objects g y)"
  "class_name (objects (attach_callbacks self x w g) y) = class_name (objects g y)"
  by (cases rule: ac_cases[of self x w g]; simp)+

lemma ac_noattr [simp]:
  "callbacks (objects (attach_callbacks self x w g) y) = NoAttr \<longleftrightarrow> callbacks (objects g y) = NoAttr"
  by (cases rule: ac_cases[of self x w g]; simp)

lemma attached_say [simp]: "attached (say m g) y = attached g y"
  by (simp add: attached_def split: callbacks_attr.splits)

lemma lucidic_count_say [simp]: "lucidic_count (say m g) y = lucidic_count g y"
  by (simp add: lucidic_count_def split: callbacks_attr.splits)





lemma same_heap_say [simp]: "same_heap (say m g) g' = same_heap g g'" "same_heap g (say m g') = same_heap g g'"
  by (simp_all add: same_heap_def)

lemma same_heap_refl [simp]: "same_heap g g"
  by (simp add: same_heap_def)






lemma targets_simps [simp]:
  "targets [] = []"
  "targets ((n, t) # ms) = (if startswith_underscore n then targets ms
     else case t of None \<Rightarrow> targets ms | Some a \<Rightarrow> a # targets ms)"
  by (simp_all add: targets_def List.map_filter_simps split: option.splits)


lemma am_members [simp]:
  "members (objects (attach_members self ms g) y) = members (objects g y)"
  "class_name (objects (attach_members self ms g) y) = class_name (objects g y)"
  by (induction self ms g rule: attach_members.induct; simp split: option.splits)+

lemma am_noattr [simp]:
  "callbacks (objects (attach_members self ms g) y) = NoAttr \<longleftrightarrow> callbacks (objects g y) = NoAttr"
  by (induction self ms g rule: attach_members.induct; simp split: option.splits)
















end
